theory Spec2Isabelle
  imports Complex_Main
begin

section \<open>Vectors and errors\<close>

text \<open>
  A finite JavaScript number is the real number it denotes (the sign of zero is not
  kept). \<open>THREE.Vector2\<close> and \<open>THREE.Vector3\<close> are plain tuples of components. The
  component type of \<open>Vector3\<close> is a parameter, so that the coordinate permutations, which
  never compute with a component, are stated for any component whatsoever.
\<close>

datatype Vector2 = Vector2 (x2: real) (y2: real)

datatype 'a Vector3 = Vector3 (x3: 'a) (y3: 'a) (z3: 'a)

datatype error =
    IndexOutOfRange nat  \<comment> \<open>\<open>throw new Error('index is out of range: ' + index)\<close>\<close>
  | TypeError            \<comment> \<open>reading a property of \<open>undefined\<close>\<close>

definition bindE :: "error + 'a \<Rightarrow> ('a \<Rightarrow> error + 'b) \<Rightarrow> error + 'b" where
  "bindE m f = (case m of Inl e \<Rightarrow> Inl e | Inr v \<Rightarrow> f v)"

text \<open>\<open>Vector3.setComponent\<close> and \<open>Vector3.getComponent\<close> of three.js: a switch on the
  index 0, 1, 2 whose default branch throws.\<close>

definition setComponent :: "nat \<Rightarrow> 'a \<Rightarrow> 'a Vector3 \<Rightarrow> error + 'a Vector3" where
  "setComponent index v this =
     (if index = 0 then Inr (Vector3 v (y3 this) (z3 this))
      else if index = 1 then Inr (Vector3 (x3 this) v (z3 this))
      else if index = 2 then Inr (Vector3 (x3 this) (y3 this) v)
      else Inl (IndexOutOfRange index))"

definition getComponent :: "nat \<Rightarrow> 'a Vector3 \<Rightarrow> error + 'a" where
  "getComponent index this =
     (if index = 0 then Inr (x3 this)
      else if index = 1 then Inr (y3 this)
      else if index = 2 then Inr (z3 this)
      else Inl (IndexOutOfRange index))"

section \<open>CoordinateFormat\<close>

record CoordinateFormatSpec =
  name :: string
  xIdx :: nat
  yIdx :: nat
  zIdx :: nat

definition mkCoordinateFormatSpec :: "string \<Rightarrow> nat \<Rightarrow> nat \<Rightarrow> nat \<Rightarrow> CoordinateFormatSpec" where
  "mkCoordinateFormatSpec n a b c = \<lparr>name = n, xIdx = a, yIdx = b, zIdx = c\<rparr>"

definition toProjectCoords :: "CoordinateFormatSpec \<Rightarrow> ('a::zero) Vector3 \<Rightarrow> error + 'a Vector3" where
  "toProjectCoords this threeJSCoords =
     bindE (bindE (setComponent (xIdx this) (x3 threeJSCoords) (Vector3 0 0 0))
                  (setComponent (yIdx this) (y3 threeJSCoords)))
           (setComponent (zIdx this) (z3 threeJSCoords))"

definition toThreeJSCoords :: "CoordinateFormatSpec \<Rightarrow> 'a Vector3 \<Rightarrow> error + 'a Vector3" where
  "toThreeJSCoords this projectCoords =
     bindE (getComponent (xIdx this) projectCoords) (\<lambda>x.
     bindE (getComponent (yIdx this) projectCoords) (\<lambda>y.
     bindE (getComponent (zIdx this) projectCoords) (\<lambda>z.
     Inr (Vector3 x y z))))"

definition XYZ :: CoordinateFormatSpec where "XYZ = mkCoordinateFormatSpec ''XYZ'' 0 1 2"
definition XZY :: CoordinateFormatSpec where "XZY = mkCoordinateFormatSpec ''XZY'' 0 2 1"
definition YXZ :: CoordinateFormatSpec where "YXZ = mkCoordinateFormatSpec ''YXZ'' 1 0 2"
definition YZX :: CoordinateFormatSpec where "YZX = mkCoordinateFormatSpec ''YZX'' 2 0 1"
definition ZXY :: CoordinateFormatSpec where "ZXY = mkCoordinateFormatSpec ''ZXY'' 1 2 0"
definition ZYX :: CoordinateFormatSpec where "ZYX = mkCoordinateFormatSpec ''ZYX'' 2 1 0"

text \<open>The frozen enumeration object \<open>CoordinateFormat\<close>, as the list of its six values.\<close>

definition CoordinateFormat :: "CoordinateFormatSpec list" where
  "CoordinateFormat = [XYZ, XZY, YXZ, YZX, ZXY, ZYX]"

section \<open>Double arithmetic\<close>

text \<open>
  The result of an arithmetic operation on doubles is the exact result rounded to the
  nearest double, a tie going to the even significand (IEEE 754 binary64). A double has a
  significand of 53 bits; \<open>binadeOf x\<close> is the exponent of the power of two at or below
  \<open>\<bar>x\<bar>\<close>, not below the exponent \<open>-1022\<close> of the subnormal range, and the doubles
  around \<open>x\<close> are the multiples of \<open>2 powi (binadeOf x - 52)\<close>.
\<close>

definition roundHalfEven :: "real \<Rightarrow> int" where
  "roundHalfEven y =
     (let f = \<lfloor>y\<rfloor>; r = y - of_int f
      in if r < 1 / 2 then f else if 1 / 2 < r then f + 1 else if even f then f else f + 1)"

definition binadeOf :: "real \<Rightarrow> int" where
  "binadeOf x = max \<lfloor>log 2 \<bar>x\<bar>\<rfloor> (- 1022)"

definition roundToDouble :: "real \<Rightarrow> real" where
  "roundToDouble x =
     (if x = 0 then 0
      else 2 powi (binadeOf x - 52) * of_int (roundHalfEven (x / 2 powi (binadeOf x - 52))))"

text \<open>A value of an arithmetic expression: a finite double, an infinity or \<open>NaN\<close>. A
  rounded result of magnitude \<open>2 ^ 1024\<close> or more overflows to an infinity.\<close>

datatype number = Finite real | PosInfinity | NegInfinity | NaN

definition roundNumber :: "real \<Rightarrow> number" where
  "roundNumber x =
     (let q = roundToDouble x
      in if 2 ^ 1024 \<le> q then PosInfinity
         else if q \<le> - (2 ^ 1024) then NegInfinity
         else Finite q)"

text \<open>The operators \<open>-\<close>, \<open>+\<close> and \<open><\<close> on numbers, and \<open>Math.pow(x, 2)\<close>, which is
  taken as the rounded product \<open>x * x\<close> (the case \<open>y = 2\<close> of the \<open>pow\<close> of fdlibm, from
  which the engines derive theirs).\<close>

fun numSub :: "number \<Rightarrow> number \<Rightarrow> number" where
  "numSub (Finite a) (Finite b) = roundNumber (a - b)"
| "numSub NaN b = NaN"
| "numSub a NaN = NaN"
| "numSub PosInfinity PosInfinity = NaN"
| "numSub NegInfinity NegInfinity = NaN"
| "numSub PosInfinity b = PosInfinity"
| "numSub NegInfinity b = NegInfinity"
| "numSub (Finite a) PosInfinity = NegInfinity"
| "numSub (Finite a) NegInfinity = PosInfinity"

fun numAdd :: "number \<Rightarrow> number \<Rightarrow> number" where
  "numAdd (Finite a) (Finite b) = roundNumber (a + b)"
| "numAdd NaN b = NaN"
| "numAdd a NaN = NaN"
| "numAdd PosInfinity NegInfinity = NaN"
| "numAdd NegInfinity PosInfinity = NaN"
| "numAdd PosInfinity b = PosInfinity"
| "numAdd NegInfinity b = NegInfinity"
| "numAdd (Finite a) PosInfinity = PosInfinity"
| "numAdd (Finite a) NegInfinity = NegInfinity"

fun mathPow2 :: "number \<Rightarrow> number" where
  "mathPow2 (Finite a) = roundNumber (a * a)"
| "mathPow2 NaN = NaN"
| "mathPow2 PosInfinity = PosInfinity"
| "mathPow2 NegInfinity = PosInfinity"

fun numLess :: "number \<Rightarrow> number \<Rightarrow> bool" where
  "numLess (Finite a) (Finite b) = (a < b)"
| "numLess NaN b = False"
| "numLess a NaN = False"
| "numLess a NegInfinity = False"
| "numLess PosInfinity b = False"
| "numLess NegInfinity b = True"
| "numLess (Finite a) PosInfinity = True"

text \<open>\<open>isDouble x\<close>: the real \<open>x\<close> is a finite double, so that rounding leaves it as it
  is.\<close>

definition isDouble :: "real \<Rightarrow> bool" where
  "isDouble x \<longleftrightarrow> roundNumber x = Finite x"

section \<open>MathUtils: spatial predicates\<close>

text \<open>The components of the vectors handed to the predicates are finite doubles.\<close>

definition isPointInCircle :: "Vector2 \<Rightarrow> real \<Rightarrow> real Vector3 \<Rightarrow> bool" where
  "isPointInCircle center radius point \<longleftrightarrow>
     numLess
       (numAdd (mathPow2 (numSub (Finite (x3 point)) (Finite (x2 center))))
               (mathPow2 (numSub (Finite (y3 point)) (Finite (y2 center)))))
       (mathPow2 (Finite radius))"

text \<open>The squared Euclidean distance, and the squared distance as the expression of
  \<open>isPointInCircle\<close> computes it.\<close>

definition computedSqDistance :: "Vector2 \<Rightarrow> real Vector3 \<Rightarrow> number" where
  "computedSqDistance center point =
     numAdd (mathPow2 (numSub (Finite (x3 point)) (Finite (x2 center))))
            (mathPow2 (numSub (Finite (y3 point)) (Finite (y2 center))))"

definition sqDistance :: "Vector2 \<Rightarrow> real Vector3 \<Rightarrow> real" where
  "sqDistance center point = (x3 point - x2 center) ^ 2 + (y3 point - y2 center) ^ 2"

definition substitutePointOnLine :: "Vector2 \<Rightarrow> Vector2 \<Rightarrow> real Vector3 \<Rightarrow> real" where
  "substitutePointOnLine pointA pointB queryPoint =
     (y3 queryPoint - y2 pointA) * (x2 pointB - x2 pointA)
       - (x3 queryPoint - x2 pointA) * (y2 pointB - y2 pointA)"

text \<open>The cross term and the loop of \<open>isPointInPolygon\<close> are taken with exact
  arithmetic. The body of the \<open>for\<close> loop has the loop counter \<open>i\<close> and the local
  \<open>windingNum\<close> as arguments; \<open>return false\<close> inside the loop ends it.\<close>

function isPointInPolygon_loop :: "real Vector3 \<Rightarrow> Vector2 list \<Rightarrow> nat \<Rightarrow> int \<Rightarrow> bool" where
  "isPointInPolygon_loop point polygon i windingNum =
     (if i < length polygon then
        (let pointOnLine = substitutePointOnLine (polygon ! i)
                             (polygon ! ((i + 1) mod length polygon)) point
         in if pointOnLine = 0 then False
            else isPointInPolygon_loop point polygon (i + 1)
                   (if y2 (polygon ! i) \<le> y3 point then
                      (if y2 (polygon ! ((i + 1) mod length polygon)) > y3 point then
                         (if pointOnLine > 0 then windingNum + 1 else windingNum)
                       else windingNum)
                    else
                      (if y2 (polygon ! ((i + 1) mod length polygon)) < y3 point then
                         (if pointOnLine < 0 then windingNum - 1 else windingNum)
                       else windingNum)))
      else windingNum \<noteq> 0)"
  by pat_completeness auto
termination
  by (relation "measure (\<lambda>(point, polygon, i, windingNum). length polygon - i)") auto

declare isPointInPolygon_loop.simps [simp del]

definition isPointInPolygon :: "real Vector3 \<Rightarrow> Vector2 list \<Rightarrow> bool" where
  "isPointInPolygon point polygon = isPointInPolygon_loop point polygon 0 0"

text \<open>Edge \<open>i\<close> of the implicitly closed polygon runs from vertex \<open>i\<close> to vertex
  \<open>(i + 1) mod n\<close>; \<open>crossTerm\<close> is its cross term with the query point.\<close>

definition crossTerm :: "real Vector3 \<Rightarrow> Vector2 list \<Rightarrow> nat \<Rightarrow> real" where
  "crossTerm point polygon i =
     substitutePointOnLine (polygon ! i) (polygon ! ((i + 1) mod length polygon)) point"

text \<open>The winding number that the result is compared with. An edge crosses the height of
  the point upward when it starts at or below that height and ends strictly above it, and
  downward when it starts strictly above and ends at or below it. With these half-open
  tests a passage of the boundary through that height is counted once, also when it
  happens at a vertex.\<close>

definition crossesUpward :: "real Vector3 \<Rightarrow> Vector2 list \<Rightarrow> nat \<Rightarrow> bool" where
  "crossesUpward point polygon i \<longleftrightarrow>
     y2 (polygon ! i) \<le> y3 point \<and> y3 point < y2 (polygon ! ((i + 1) mod length polygon))"

definition crossesDownward :: "real Vector3 \<Rightarrow> Vector2 list \<Rightarrow> nat \<Rightarrow> bool" where
  "crossesDownward point polygon i \<longleftrightarrow>
     y3 point < y2 (polygon ! i) \<and> y2 (polygon ! ((i + 1) mod length polygon)) \<le> y3 point"

definition windingContribution :: "real Vector3 \<Rightarrow> Vector2 list \<Rightarrow> nat \<Rightarrow> int" where
  "windingContribution point polygon i =
     (if crossesUpward point polygon i \<and> crossTerm point polygon i > 0 then 1
      else if crossesDownward point polygon i \<and> crossTerm point polygon i < 0 then - 1
      else 0)"

definition windingNumber :: "real Vector3 \<Rightarrow> Vector2 list \<Rightarrow> int" where
  "windingNumber point polygon =
     sum_list (map (windingContribution point polygon) [0..<length polygon])"

text \<open>What the loop adds to \<open>windingNum\<close> at edge \<open>i\<close>, and the sum over all edges. The
  downward test of the loop is strict at both ends.\<close>

definition strictlyDownward :: "real Vector3 \<Rightarrow> Vector2 list \<Rightarrow> nat \<Rightarrow> bool" where
  "strictlyDownward point polygon i \<longleftrightarrow>
     y3 point < y2 (polygon ! i) \<and> y2 (polygon ! ((i + 1) mod length polygon)) < y3 point"

definition windingNumStep :: "real Vector3 \<Rightarrow> Vector2 list \<Rightarrow> nat \<Rightarrow> int" where
  "windingNumStep point polygon i =
     (if crossesUpward point polygon i \<and> crossTerm point polygon i > 0 then 1
      else if strictlyDownward point polygon i \<and> crossTerm point polygon i < 0 then - 1
      else 0)"

definition windingNumTotal :: "real Vector3 \<Rightarrow> Vector2 list \<Rightarrow> int" where
  "windingNumTotal point polygon =
     sum_list (map (windingNumStep point polygon) [0..<length polygon])"

text \<open>Edge \<open>i\<close> of the reversed vertex list is edge \<open>mirrorEdge n i\<close> of the list, run
  backwards.\<close>

definition mirrorEdge :: "nat \<Rightarrow> nat \<Rightarrow> nat" where
  "mirrorEdge n i = (if Suc i = n then i else n - 2 - i)"

definition unitSquare :: "Vector2 list" where
  "unitSquare = [Vector2 (- 1) (- 1), Vector2 1 (- 1), Vector2 1 1, Vector2 (- 1) 1]"

text \<open>The square with one more vertex, \<open>(1,0)\<close>, on its right side, listed clockwise.\<close>

definition squareClockwise :: "Vector2 list" where
  "squareClockwise =
     [Vector2 (- 1) (- 1), Vector2 (- 1) 1, Vector2 1 1, Vector2 1 0, Vector2 1 (- 1)]"

section \<open>PointBuffer\<close>

text \<open>
  Console output is modelled as a list of diagnostics returned next to the value. Lengths,
  channel counts and indices are integers (of magnitude below \<open>2 ^ 53\<close>, so that they are
  doubles); \<open>numPoints\<close> is the quotient that the constructor stores, a double that need
  not be an integer. The quotient, the difference and the products below are rounded like
  every result in double arithmetic; none of them can overflow, since their magnitudes are
  bounded by the data length and the channel count.
\<close>

datatype diagnostic =
    NumChannelsBelow3 int              \<comment> \<open>The number of channels (n) must be >= 3\<close>
  | NumChannelsNotDividing int nat     \<comment> \<open>The number of channels (n) does not evenly divide the data (length: l)\<close>
  | PointIdxOutOfRange int real        \<comment> \<open>Point index i is not in [0, numPoints)\<close>

definition checkNumChannels :: "real list \<Rightarrow> int \<Rightarrow> int \<times> diagnostic list" where
  "checkNumChannels data numChannels =
     (if numChannels < 3 then (3, [NumChannelsBelow3 numChannels])
      else if int (length data) mod numChannels \<noteq> 0
        then (int (length data), [NumChannelsNotDividing numChannels (length data)])
      else (numChannels, []))"

record PointBuffer =
  data :: "real list"
  format :: CoordinateFormatSpec
  numChannels :: int
  numPoints :: real

text \<open>The constructor; the second component is what it writes to the console.\<close>

definition newPointBuffer :: "real list \<Rightarrow> CoordinateFormatSpec \<Rightarrow> int \<Rightarrow> PointBuffer \<times> diagnostic list" where
  "newPointBuffer data0 format0 numChannels0 =
     (let (cleanedNumChannels, msgs) = checkNumChannels data0 numChannels0
      in (\<lparr>data = data0, format = format0, numChannels = cleanedNumChannels,
           numPoints = roundToDouble (real (length data0) / real_of_int cleanedNumChannels)\<rparr>,
          msgs))"

text \<open>\<open>_.clamp\<close> of lodash: first bounded above, then bounded below.\<close>

definition clamp :: "real \<Rightarrow> real \<Rightarrow> real \<Rightarrow> real" where
  "clamp number lower upper =
     (let n = (if number \<le> upper then number else upper)
      in if n \<ge> lower then n else lower)"

definition checkPointIdx :: "PointBuffer \<Rightarrow> int \<Rightarrow> real \<times> diagnostic list" where
  "checkPointIdx this pointIdx =
     (if pointIdx < 0 \<or> real_of_int pointIdx \<ge> numPoints this
        then (clamp (real_of_int pointIdx) 0 (roundToDouble (numPoints this - 1)),
              [PointIdxOutOfRange pointIdx (numPoints this)])
      else (real_of_int pointIdx, []))"

text \<open>\<open>slice(start, end)\<close> of a typed array: both bounds are truncated towards zero, a
  negative bound counts from the end, and both are clipped to the array.\<close>

definition toIntegerJS :: "real \<Rightarrow> int" where
  "toIntegerJS r = (if r \<ge> 0 then \<lfloor>r\<rfloor> else \<lceil>r\<rceil>)"

definition slice :: "'a list \<Rightarrow> real \<Rightarrow> real \<Rightarrow> 'a list" where
  "slice xs start end0 =
     (let len = int (length xs);
          relativeStart = toIntegerJS start;
          k = (if relativeStart < 0 then max (len + relativeStart) 0 else min relativeStart len);
          relativeEnd = toIntegerJS end0;
          final = (if relativeEnd < 0 then max (len + relativeEnd) 0 else min relativeEnd len)
      in take (nat (final - k)) (drop (nat k) xs))"

definition getPoint :: "PointBuffer \<Rightarrow> int \<Rightarrow> real list \<times> diagnostic list" where
  "getPoint this pointIdx =
     (let (cleanedPointIdx, msgs) = checkPointIdx this pointIdx;
          n = real_of_int (numChannels this)
      in (slice (data this) (roundToDouble (n * cleanedPointIdx))
            (roundToDouble (n * roundToDouble (cleanedPointIdx + 1))), msgs))"

text \<open>\<open>const [a, b, c] = ...; new THREE.Vector3(a, b, c)\<close>: the array destructuring of
  a slice with fewer than three elements leaves the rest undefined, and the constructor of
  \<open>Vector3\<close> takes 0 for an undefined argument.\<close>

definition destructure3 :: "real list \<Rightarrow> real Vector3" where
  "destructure3 xs =
     Vector3 (if 0 < length xs then xs ! 0 else 0)
             (if 1 < length xs then xs ! 1 else 0)
             (if 2 < length xs then xs ! 2 else 0)"

definition getPointCoords :: "PointBuffer \<Rightarrow> int \<Rightarrow> error + real Vector3" where
  "getPointCoords this pointIdx =
     toThreeJSCoords (format this) (destructure3 (fst (getPoint this pointIdx)))"

text \<open>\<open>_.range(n)\<close> of lodash for \<open>n \<ge> 0\<close>: the integers from \<open>0\<close> below \<open>n\<close>, that
  is \<open>ceil n\<close> of them.\<close>

definition range' :: "real \<Rightarrow> int list" where
  "range' n = map int [0..<nat \<lceil>n\<rceil>]"

primrec mapE :: "('a \<Rightarrow> error + 'b) \<Rightarrow> 'a list \<Rightarrow> error + 'b list" where
  "mapE f [] = Inr []"
| "mapE f (x # xs) = bindE (f x) (\<lambda>y. bindE (mapE f xs) (\<lambda>ys. Inr (y # ys)))"

definition getCoords :: "PointBuffer \<Rightarrow> error + real Vector3 list" where
  "getCoords this = mapE (getPointCoords this) (range' (numPoints this))"

text \<open>The data model's description of \<open>numPoints\<close>: the floor of the data length divided
  by the stored channel count.\<close>

definition numPointsIsFloor :: "PointBuffer \<Rightarrow> bool" where
  "numPointsIsFloor this \<longleftrightarrow>
     numPoints this = of_int \<lfloor>real (length (data this)) / real_of_int (numChannels this)\<rfloor>"

section \<open>Picker\<close>

text \<open>
  The picker is generic in the type \<open>'o\<close> of pickable objects, which stands for object
  references: \<open>===\<close> on objects is equality on \<open>'o\<close>, and \<open>null\<close> is \<open>None\<close>. The
  iterable \<open>objects\<close> is the list of its current elements in iteration order. The raycaster is an
  abstract value \<open>'r\<close> handed to \<open>raycastFunc\<close>. Of an intersection only the distance is
  read; distances are finite numbers, and the initial \<open>Number.POSITIVE_INFINITY\<close> of the
  running minimum is \<open>None\<close>. Listeners run by \<open>dispatchEvent\<close> are outside the model:
  each setter returns the new state and what it dispatched and logged, in order.
\<close>

record Intersection =
  distance :: real

datatype PickerEventType = Hoverin | Hoverout | Selectin | Selectout

datatype 'o PickerEvent =
  PickerEvent (eventType: PickerEventType) (eventObject: 'o) (isFromPointer: bool)

datatype 'o PickerOutput =
    Dispatch "'o PickerEvent"
  | ConsoleWarn string

record ('o, 'r) Picker =
  hoverEnabled :: bool
  selectEnabled :: bool
  objects :: "'o list"
  raycastFunc :: "'o \<Rightarrow> 'r \<Rightarrow> Intersection list"
  raycaster :: 'r
  hoveredObj :: "'o option"
  selectedObj :: "'o option"

text \<open>\<open>CollectionUtils.every\<close>: the first element that fails the predicate ends the loop.\<close>

fun every :: "'a list \<Rightarrow> ('a \<Rightarrow> bool) \<Rightarrow> bool" where
  "every [] predicate = True"
| "every (v # rest) predicate = (if \<not> predicate v then False else every rest predicate)"

text \<open>\<open>distance < minDistance\<close>, where \<open>None\<close> is positive infinity.\<close>

definition lessThanMin :: "real \<Rightarrow> real option \<Rightarrow> bool" where
  "lessThanMin d minDistance = (case minDistance of None \<Rightarrow> True | Some m \<Rightarrow> d < m)"

text \<open>The \<open>for ... of\<close> loop of \<open>getHoveredObj\<close> over the remaining objects, with the
  locals \<open>hoveredObj\<close> and \<open>minDistance\<close> as arguments.\<close>

fun getHoveredObj_loop ::
  "('o \<Rightarrow> Intersection list) \<Rightarrow> 'o list \<Rightarrow> 'o option \<Rightarrow> real option \<Rightarrow> 'o option" where
  "getHoveredObj_loop cast [] hovered minDistance = hovered"
| "getHoveredObj_loop cast (obj # rest) hovered minDistance =
     (let intersects = cast obj
      in if length intersects > 0 then
           (let d = distance (hd intersects)
            in if lessThanMin d minDistance
               then getHoveredObj_loop cast rest (Some obj) (Some d)
               else getHoveredObj_loop cast rest hovered minDistance)
         else getHoveredObj_loop cast rest hovered minDistance)"

definition getHoveredObj :: "('o, 'r) Picker \<Rightarrow> 'o option" where
  "getHoveredObj this =
     getHoveredObj_loop (\<lambda>obj. raycastFunc this obj (raycaster this)) (objects this) None None"

definition setHoveredObj ::
  "'o option \<Rightarrow> bool \<Rightarrow> ('o, 'r) Picker \<Rightarrow> ('o, 'r) Picker \<times> 'o PickerOutput list" where
  "setHoveredObj value fromPointer this =
     (let prevHoveredObj = hoveredObj this
      in if prevHoveredObj \<noteq> value then
           (this\<lparr>hoveredObj := value\<rparr>,
            (case prevHoveredObj of
               None \<Rightarrow> []
             | Some prev \<Rightarrow> [Dispatch (PickerEvent Hoverout prev fromPointer)])
            @ (case value of
                 None \<Rightarrow> []
               | Some v \<Rightarrow>
                   (if every (objects this) (\<lambda>e. e \<noteq> v)
                    then [ConsoleWarn ''This picker does not interact with the object to hover over'']
                    else [])
                   @ [Dispatch (PickerEvent Hoverin v fromPointer)]))
         else (this, []))"

definition setSelectedObj ::
  "'o option \<Rightarrow> bool \<Rightarrow> ('o, 'r) Picker \<Rightarrow> ('o, 'r) Picker \<times> 'o PickerOutput list" where
  "setSelectedObj value fromPointer this =
     (let prevSelectedObj = selectedObj this
      in if prevSelectedObj \<noteq> value then
           (this\<lparr>selectedObj := value\<rparr>,
            (case prevSelectedObj of
               None \<Rightarrow> []
             | Some prev \<Rightarrow> [Dispatch (PickerEvent Selectout prev fromPointer)])
            @ (case value of
                 None \<Rightarrow> []
               | Some v \<Rightarrow>
                   (if every (objects this) (\<lambda>e. e \<noteq> v)
                    then [ConsoleWarn ''This picker does not interact with the object to select'']
                    else [])
                   @ [Dispatch (PickerEvent Selectin v fromPointer)]))
         else (this, []))"

text \<open>The property setters \<open>hoveredObj = value\<close> and \<open>selectedObj = value\<close>.\<close>

definition set_hoveredObj ::
  "'o option \<Rightarrow> ('o, 'r) Picker \<Rightarrow> ('o, 'r) Picker \<times> 'o PickerOutput list" where
  "set_hoveredObj value this = setHoveredObj value False this"

definition set_selectedObj ::
  "'o option \<Rightarrow> ('o, 'r) Picker \<Rightarrow> ('o, 'r) Picker \<times> 'o PickerOutput list" where
  "set_selectedObj value this = setSelectedObj value False this"

definition set_hoverEnabled ::
  "bool \<Rightarrow> ('o, 'r) Picker \<Rightarrow> ('o, 'r) Picker \<times> 'o PickerOutput list" where
  "set_hoverEnabled value this =
     (let this1 = this\<lparr>hoverEnabled := value\<rparr>
      in if value then set_hoveredObj (getHoveredObj this1) this1
         else set_hoveredObj None this1)"

text \<open>\<open>selectEnabled\<close> is a plain field: assigning it does nothing else.\<close>

definition set_selectEnabled ::
  "bool \<Rightarrow> ('o, 'r) Picker \<Rightarrow> ('o, 'r) Picker \<times> 'o PickerOutput list" where
  "set_selectEnabled value this = (this\<lparr>selectEnabled := value\<rparr>, [])"

text \<open>The setter of \<open>objects\<close>. Its test \<open>this.objects !== value\<close> compares references:
  \<open>sameReference\<close> says whether the assigned collection is the very collection that the
  picker holds, and \<open>value\<close> lists the elements of the assigned collection. The picker
  iterates over the collection itself, so after the assignment it sees these elements in
  either case.\<close>

definition set_objects ::
  "bool \<Rightarrow> 'o list \<Rightarrow> ('o, 'r) Picker \<Rightarrow> ('o, 'r) Picker \<times> 'o PickerOutput list" where
  "set_objects sameReference value this =
     (if \<not> sameReference then
        (let this1 = this\<lparr>objects := value\<rparr>;
             (this2, out1) = set_selectedObj None this1;
             (this3, out2) = set_hoveredObj None this2
         in (this3, out1 @ out2))
      else (this\<lparr>objects := value\<rparr>, []))"

text \<open>Reading the outputs of a setter: the dispatched events and the warnings, each in
  order.\<close>

fun dispatched :: "'o PickerOutput list \<Rightarrow> 'o PickerEvent list" where
  "dispatched [] = []"
| "dispatched (Dispatch e # rest) = e # dispatched rest"
| "dispatched (ConsoleWarn w # rest) = dispatched rest"

fun warnings :: "'o PickerOutput list \<Rightarrow> string list" where
  "warnings [] = []"
| "warnings (Dispatch e # rest) = warnings rest"
| "warnings (ConsoleWarn w # rest) = w # warnings rest"

definition firstDistance :: "('o, 'r) Picker \<Rightarrow> 'o \<Rightarrow> real" where
  "firstDistance this obj = distance (hd (raycastFunc this obj (raycaster this)))"

definition intersected :: "('o, 'r) Picker \<Rightarrow> 'o \<Rightarrow> bool" where
  "intersected this obj \<longleftrightarrow> raycastFunc this obj (raycaster this) \<noteq> []"

text \<open>Three objects at distances 5, 2 and 8 along the ray.\<close>

definition examplePicker :: "(nat, unit) Picker" where
  "examplePicker =
     \<lparr>hoverEnabled = True, selectEnabled = True, objects = [0, 1, 2],
      raycastFunc = (\<lambda>obj ray. if obj = 0 then [\<lparr>distance = 5\<rparr>]
                                else if obj = 1 then [\<lparr>distance = 2\<rparr>, \<lparr>distance = 3\<rparr>]
                                else if obj = 2 then [\<lparr>distance = 8\<rparr>]
                                else []),
      raycaster = (), hoveredObj = None, selectedObj = None\<rparr>"

section \<open>PointCloud, LabelSelection and EditSelection\<close>

text \<open>
  Of a point cloud and a label selection the model keeps the fields that \<open>EditSelection\<close>
  reads and writes; the three.js display objects are left out. A field that the constructor
  does not assign is \<open>undefined\<close> (\<open>None\<close>) until it is set. The label class is an
  opaque value of type \<open>'c\<close>.
\<close>

record PointCloud =
  buffer :: PointBuffer
  bufferNDC :: "real Vector3 list"
  pointSize :: real

record 'c LabelSelection =
  id' :: real
  points :: "real Vector3 list"
  pointsNDC :: "real Vector3 list option"
  pointSize' :: real
  labelClass :: "'c option"

definition mkLabelSelection :: "real \<Rightarrow> real Vector3 list \<Rightarrow> real \<Rightarrow> 'c LabelSelection" where
  "mkLabelSelection i pts sz =
     \<lparr>id' = i, points = pts, pointsNDC = None, pointSize' = sz, labelClass = None\<rparr>"

definition set_labelClass :: "'c \<Rightarrow> 'c LabelSelection \<Rightarrow> 'c LabelSelection" where
  "set_labelClass value this =
     (if labelClass this \<noteq> Some value then this\<lparr>labelClass := Some value\<rparr> else this)"

definition updateSelectionPoints :: "real Vector3 list \<Rightarrow> 'c LabelSelection \<Rightarrow> 'c LabelSelection" where
  "updateSelectionPoints pts this = this\<lparr>points := pts\<rparr>"

text \<open>\<open>isCoordinatesInArray\<close> uses \<open>Vector3.equals\<close>, the equality of all components.\<close>

definition isCoordinatesInArray :: "'a Vector3 list \<Rightarrow> 'a Vector3 \<Rightarrow> bool" where
  "isCoordinatesInArray array point = list_ex (\<lambda>vec. vec = point) array"

definition differenceOfArrays :: "'a Vector3 list \<Rightarrow> 'a Vector3 list \<Rightarrow> 'a Vector3 list" where
  "differenceOfArrays arrA arrB = filter (\<lambda>point. \<not> isCoordinatesInArray arrB point) arrA"

text \<open>A drawn object is an array of vertices or a circle \<open>{center, radius}\<close>.\<close>

datatype Shape = Polygon "Vector2 list" | Circle Vector2 real

datatype 'c EditSelectionEvent =
    SelectionAdded "'c LabelSelection" "real Vector3 list"
  | SelectionChanged "'c LabelSelection" "real Vector3 list"

record 'c EditSelection =
  newLabelSelection :: "'c LabelSelection option"

text \<open>Reading an array at an index: \<open>undefined\<close> beyond its end.\<close>

definition arrayGet :: "'a list \<Rightarrow> nat \<Rightarrow> 'a option" where
  "arrayGet xs i = (if i < length xs then Some (xs ! i) else None)"

text \<open>The body of the two filter callbacks, applied to the cache entry \<open>pointNDC\<close>. With
  an undefined entry \<open>isPointInCircle\<close> throws on \<open>point.x\<close>, and \<open>isPointInPolygon\<close>
  throws on \<open>queryPoint.y\<close> as soon as the polygon has an edge.\<close>

definition isPointInObject :: "Shape \<Rightarrow> real Vector3 option \<Rightarrow> error + bool" where
  "isPointInObject object pointNDC =
     (case object of
        Polygon polygon \<Rightarrow>
          (case pointNDC of
             Some p \<Rightarrow> Inr (isPointInPolygon p polygon)
           | None \<Rightarrow> if polygon = [] then Inr False else Inl TypeError)
      | Circle center radius \<Rightarrow>
          (case pointNDC of
             Some p \<Rightarrow> Inr (isPointInCircle center radius p)
           | None \<Rightarrow> Inl TypeError))"

text \<open>\<open>Array.prototype.filter\<close> with a callback on the index that may throw; \<open>i\<close> is the
  index of the head of the remaining list.\<close>

fun filterE :: "(nat \<Rightarrow> error + bool) \<Rightarrow> 'a list \<Rightarrow> nat \<Rightarrow> error + 'a list" where
  "filterE f [] i = Inr []"
| "filterE f (x # xs) i =
     bindE (f i) (\<lambda>keep. bindE (filterE f xs (i + 1)) (\<lambda>rest.
       Inr (if keep then x # rest else rest)))"

definition queryPointFromPcd :: "Shape \<Rightarrow> PointCloud \<Rightarrow> error + real Vector3 list" where
  "queryPointFromPcd object pointCloud =
     bindE (getCoords (buffer pointCloud)) (\<lambda>coords.
       filterE (\<lambda>i. isPointInObject object (arrayGet (bufferNDC pointCloud) i)) coords 0)"

definition queryPointFromSelection :: "Shape \<Rightarrow> 'c LabelSelection \<Rightarrow> error + real Vector3 list" where
  "queryPointFromSelection object selection =
     filterE (\<lambda>i. case pointsNDC selection of
                     None \<Rightarrow> Inl TypeError
                   | Some ndc \<Rightarrow> isPointInObject object (arrayGet ndc i))
       (points selection) 0"

text \<open>\<open>createSelection\<close>: \<open>rnd\<close> is the value drawn by \<open>Math.random()\<close>. The result is
  the new state of the editor and the dispatched events, or the error that rejects the
  returned promise.\<close>

definition createSelection ::
  "Shape \<Rightarrow> 'c \<Rightarrow> PointCloud \<Rightarrow> real \<Rightarrow> 'c EditSelection
     \<Rightarrow> error + ('c EditSelection \<times> 'c EditSelectionEvent list)" where
  "createSelection object lc pointCloud rnd this =
     bindE (queryPointFromPcd object pointCloud) (\<lambda>pointsInObj.
       let selectionPoints = pointsInObj
       in if length selectionPoints > 0 then
            (let sel = set_labelClass lc
                         (mkLabelSelection (rnd * 100 + 5) selectionPoints (pointSize pointCloud))
             in Inr (this\<lparr>newLabelSelection := Some sel\<rparr>, [SelectionAdded sel pointsInObj]))
          else Inr (this, []))"

text \<open>\<open>modifySelection\<close>: the selection is updated in place, so the result is the
  selection after the call and the dispatched events.\<close>

definition modifySelection ::
  "Shape \<Rightarrow> PointCloud \<Rightarrow> 'c LabelSelection \<Rightarrow> string
     \<Rightarrow> error + ('c LabelSelection \<times> 'c EditSelectionEvent list)" where
  "modifySelection object pointCloud labelSelection mode =
     (let selectionElement = points labelSelection
      in if mode = ''add'' then
           bindE (queryPointFromPcd object pointCloud) (\<lambda>pointsInObj.
             let sel = updateSelectionPoints (pointsInObj @ selectionElement) labelSelection
             in Inr (sel, [SelectionChanged sel pointsInObj]))
         else if mode = ''erase'' then
           bindE (queryPointFromSelection object labelSelection) (\<lambda>pointsInObj.
             let sel = updateSelectionPoints
                         (differenceOfArrays selectionElement pointsInObj) labelSelection
             in Inr (sel, [SelectionChanged sel pointsInObj]))
         else Inr (labelSelection, []))"

text \<open>\<open>ThreeUtils.worldCoordsToNDC\<close>, by which the scene refreshes the caches; the
  parameter \<open>project\<close> stands for \<open>Vector3.project(camera)\<close> of three.js with the
  camera of the scene.\<close>

definition worldCoordsToNDC :: "(real Vector3 \<Rightarrow> real Vector3) \<Rightarrow> real Vector3 list \<Rightarrow> real Vector3 list" where
  "worldCoordsToNDC project pts = map project pts"

text \<open>Whether a shape contains a projected point, and the cloud points whose cache entry
  lies in the shape: the descriptions that the queries are compared with.\<close>

definition shapeContains :: "Shape \<Rightarrow> real Vector3 \<Rightarrow> bool" where
  "shapeContains object p =
     (case object of
        Polygon polygon \<Rightarrow> isPointInPolygon p polygon
      | Circle center radius \<Rightarrow> isPointInCircle center radius p)"

definition matchedCloudPoints :: "Shape \<Rightarrow> real Vector3 list \<Rightarrow> real Vector3 list \<Rightarrow> real Vector3 list" where
  "matchedCloudPoints object coords ndc =
     map fst (filter (\<lambda>(p, n). shapeContains object n) (zip coords ndc))"

text \<open>Examples: a projection that drops the depth, a cloud of three points with its cache,
  and a selection of three points with its cache.\<close>

definition exampleProject :: "real Vector3 \<Rightarrow> real Vector3" where
  "exampleProject p = Vector3 (x3 p) (y3 p) 0"

definition exampleCloud :: PointCloud where
  "exampleCloud =
     \<lparr>buffer = fst (newPointBuffer [0, 0, 1, 2, 2, 1, 0, 1, 3] XYZ 3),
      bufferNDC = [Vector3 0 0 0, Vector3 2 2 0, Vector3 0 1 0],
      pointSize = 2\<rparr>"

text \<open>The same cloud with a cache of one entry, and a selection of two equal points whose
  cache is not the projection of its points.\<close>

definition shortCacheCloud :: PointCloud where
  "shortCacheCloud = exampleCloud\<lparr>bufferNDC := [Vector3 0 0 0]\<rparr>"

definition staleSelection :: "nat LabelSelection" where
  "staleSelection =
     \<lparr>id' = 7, points = [Vector3 0 0 1, Vector3 0 0 1],
      pointsNDC = Some [Vector3 0 0 0, Vector3 5 5 0],
      pointSize' = 2, labelClass = Some 1\<rparr>"

definition exampleSelection :: "nat LabelSelection" where
  "exampleSelection =
     \<lparr>id' = 7,
      points = [Vector3 0 0 1, Vector3 2 2 1, Vector3 0 0 1],
      pointsNDC = Some [Vector3 0 0 0, Vector3 2 2 0, Vector3 0 0 0],
      pointSize' = 2, labelClass = Some 1\<rparr>"

section \<open>Properties of CoordinateFormat\<close>

lemma CoordinateFormat_perm:
  assumes "f \<in> set CoordinateFormat"
  shows "{xIdx f, yIdx f, zIdx f} = {0, 1, 2}"
  using assms
  by (auto simp: CoordinateFormat_def XYZ_def XZY_def YXZ_def YZX_def ZXY_def ZYX_def
      mkCoordinateFormatSpec_def)

text \<open>
  Claim C2. For each of the six values of \<open>CoordinateFormat\<close> and every vector \<open>v\<close>,
  \<open>toProjectCoords (toThreeJSCoords v)\<close> returns \<open>v\<close> and \<open>toThreeJSCoords (toProjectCoords v)\<close>
  returns \<open>v\<close>: neither call throws and the components come back unchanged.
\<close>

theorem CoordinateFormat_roundtrip:
  fixes v :: "('a::zero) Vector3"
  assumes "f \<in> set CoordinateFormat"
  shows "bindE (toThreeJSCoords f v) (toProjectCoords f) = Inr v
       \<and> bindE (toProjectCoords f v) (toThreeJSCoords f) = Inr v"
  using assms
  by (cases v)
     (auto simp: CoordinateFormat_def XYZ_def XZY_def YXZ_def YZX_def ZXY_def ZYX_def
        mkCoordinateFormatSpec_def toProjectCoords_def toThreeJSCoords_def bindE_def
        setComponent_def getComponent_def)

theorem CoordinateFormat_roundtrip_witness:
  "YZX \<in> set CoordinateFormat
   \<and> toThreeJSCoords YZX (Vector3 (1::real) 2 3) = Inr (Vector3 3 1 2)
   \<and> bindE (toThreeJSCoords YZX (Vector3 (1::real) 2 3)) (toProjectCoords YZX) = Inr (Vector3 1 2 3)
   \<and> bindE (toProjectCoords YZX (Vector3 (1::real) 2 3)) (toThreeJSCoords YZX) = Inr (Vector3 1 2 3)"
proof -
  have m: "YZX \<in> set CoordinateFormat"
    by (simp add: CoordinateFormat_def)
  have e: "toThreeJSCoords YZX (Vector3 (1::real) 2 3) = Inr (Vector3 3 1 2)"
    by (simp add: YZX_def mkCoordinateFormatSpec_def toThreeJSCoords_def bindE_def getComponent_def)
  show ?thesis
    using m e CoordinateFormat_roundtrip [OF m, of "Vector3 (1::real) 2 3"] by simp
qed

section \<open>Properties of double arithmetic\<close>

lemma floor_log2_eq:
  assumes "2 powi e \<le> x" "x < 2 powi (e + 1)"
  shows "\<lfloor>log 2 x\<rfloor> = e"
proof -
  have pos: "0 < x"
    using assms(1) by (smt (verit) zero_less_power_int)
  have "2 powr real_of_int e \<le> x \<and> x < 2 powr (real_of_int e + 1)"
    using assms powr_real_of_int' [of 2 e] powr_real_of_int' [of 2 "e + 1"]
    by (simp add: add.commute)
  then show ?thesis
    using floor_log_eq_powr_iff [OF pos, of 2 e] by simp
qed

lemma binadeOf_eq:
  assumes "2 powi e \<le> \<bar>x\<bar>" "\<bar>x\<bar> < 2 powi (e + 1)"
  shows "binadeOf x = max e (- 1022)"
  using floor_log2_eq [OF assms] by (simp add: binadeOf_def)

lemma roundHalfEven_of_int [simp]: "roundHalfEven (of_int n) = n"
  by (simp add: roundHalfEven_def)

lemma roundToDouble_binade:
  assumes "2 powi e \<le> \<bar>x\<bar>" "\<bar>x\<bar> < 2 powi (e + 1)" "- 1022 \<le> e"
  shows "roundToDouble x = 2 powi (e - 52) * of_int (roundHalfEven (x / 2 powi (e - 52)))"
proof -
  have "x \<noteq> 0"
    using assms(1) by (smt (verit) zero_less_power_int)
  moreover have "binadeOf x = e"
    using binadeOf_eq [OF assms(1,2)] assms(3) by simp
  ultimately show ?thesis
    by (simp add: roundToDouble_def)
qed

lemma floor_log2_less:
  assumes "0 < x" "x < 2 powi n"
  shows "\<lfloor>log 2 x\<rfloor> < n"
proof -
  have "log 2 x < real_of_int n"
    using assms powr_real_of_int' [of 2 n] by (simp add: log_less_iff)
  then show ?thesis
    by (simp add: floor_less_iff)
qed

lemma roundToDouble_exact:
  assumes x: "x = of_int m * 2 powi k" and m: "\<bar>m\<bar> < 2 ^ 53" and k: "- 1074 \<le> k"
  shows "roundToDouble x = x"
proof (cases "m = 0")
  case True
  with x show ?thesis by (simp add: roundToDouble_def)
next
  case False
  have pk: "(0::real) < 2 powi k" by simp
  have x0: "x \<noteq> 0" using False x by simp
  have absx: "\<bar>x\<bar> = of_int \<bar>m\<bar> * 2 powi k"
    using x by (simp add: abs_mult)
  have "real_of_int \<bar>m\<bar> < 2 ^ 53"
    using m by (metis of_int_less_numeral_power_cancel_iff)
  then have "\<bar>x\<bar> < 2 ^ 53 * 2 powi k"
    unfolding absx using pk by (simp add: mult_strict_right_mono)
  also have "\<dots> = 2 powi (k + 53)"
    by (simp add: power_int_add)
  finally have "\<lfloor>log 2 \<bar>x\<bar>\<rfloor> < k + 53"
    using x0 by (intro floor_log2_less) auto
  then have b: "binadeOf x - 52 \<le> k"
    using k by (simp add: binadeOf_def)
  define u :: real where "u = 2 powi (binadeOf x - 52)"
  define d where "d = nat (k - (binadeOf x - 52))"
  have u: "0 < u" by (simp add: u_def)
  have kd: "k = (binadeOf x - 52) + int d"
    using b by (simp add: d_def)
  have "2 powi k = u * 2 ^ d"
    unfolding u_def by (subst kd) (simp add: power_int_add)
  then have xu: "x = of_int (m * 2 ^ d) * u"
    using x by simp
  then have q: "x / u = of_int (m * 2 ^ d)"
    using u by simp
  have "roundToDouble x = u * of_int (roundHalfEven (x / u))"
    using x0 by (simp add: roundToDouble_def u_def)
  also have "\<dots> = u * of_int (m * 2 ^ d)"
    unfolding q roundHalfEven_of_int ..
  also have "\<dots> = x"
    using xu by simp
  finally show ?thesis .
qed

lemma roundToDouble_of_int: "\<bar>m\<bar> < 2 ^ 53 \<Longrightarrow> roundToDouble (of_int m) = of_int m"
  using roundToDouble_exact [of "of_int m" m 0] by simp

lemma roundToDouble_numeral:
  "(numeral w :: int) < 2 ^ 53 \<Longrightarrow> roundToDouble (numeral w) = numeral w"
  using roundToDouble_of_int [of "numeral w"] by simp

lemma roundToDouble_0: "roundToDouble 0 = 0"
  by (simp add: roundToDouble_def)

lemma roundToDouble_1: "roundToDouble 1 = 1"
  using roundToDouble_of_int [of 1] by simp

text \<open>A real \<open>m * 2 powi k\<close> with a significand \<open>m\<close> of at most 53 bits, an exponent
  \<open>k\<close> in range and a magnitude below \<open>2 ^ 1024\<close> is a double.\<close>

lemma roundNumber_finite:
  assumes "\<bar>roundToDouble x\<bar> < 2 ^ 1024"
  shows "roundNumber x = Finite (roundToDouble x)"
proof -
  have "\<not> 2 ^ 1024 \<le> roundToDouble x" and "\<not> roundToDouble x \<le> - (2 ^ 1024)"
    using assms by (simp_all only: abs_less_iff not_le) simp_all
  then show ?thesis
    by (simp only: roundNumber_def Let_def if_False)
qed

lemma isDouble_exact:
  assumes "x = of_int m * 2 powi k" and "\<bar>m\<bar> < 2 ^ 53" and "- 1074 \<le> k"
    and "\<bar>x\<bar> < 2 ^ 1024"
  shows "isDouble x"
  using assms(4) roundNumber_finite [of x] roundToDouble_exact [OF assms(1-3)]
  by (simp only: isDouble_def)

lemma isDouble_of_int: "\<bar>m\<bar> < 2 ^ 53 \<Longrightarrow> isDouble (of_int m)"
proof -
  assume m: "\<bar>m\<bar> < 2 ^ 53"
  then have "real_of_int \<bar>m\<bar> < 2 ^ 53"
    by (metis of_int_less_numeral_power_cancel_iff)
  then have "\<bar>real_of_int m\<bar> < 2 ^ 1024"
    by simp
  then show ?thesis
    using m isDouble_exact [of "of_int m" m 0] by simp
qed

lemma roundNumber_numeral:
  "(numeral w :: int) < 2 ^ 53 \<Longrightarrow> roundNumber (numeral w) = Finite (numeral w)"
  using isDouble_of_int [of "numeral w"] by (simp add: isDouble_def)

lemma roundNumber_neg_numeral:
  "(numeral w :: int) < 2 ^ 53 \<Longrightarrow> roundNumber (- numeral w) = Finite (- numeral w)"
  using isDouble_of_int [of "- numeral w"] by (simp add: isDouble_def)

lemma roundNumber_0: "roundNumber 0 = Finite 0"
  using isDouble_of_int [of 0] by (simp add: isDouble_def)

lemma roundNumber_1: "roundNumber 1 = Finite 1"
  using isDouble_of_int [of 1] by (simp add: isDouble_def)

lemmas double_eval =
  roundToDouble_numeral roundToDouble_0 roundToDouble_1
  roundNumber_numeral roundNumber_neg_numeral roundNumber_0 roundNumber_1

section \<open>Properties of the spatial predicates\<close>

text \<open>When the two differences, their squares, the sum of the squares and the square of
  the radius are doubles, no operation of \<open>isPointInCircle\<close> rounds.\<close>

lemma computedSqDistance_exact:
  assumes "isDouble (x3 point - x2 center)" and "isDouble (y3 point - y2 center)"
    and "isDouble ((x3 point - x2 center) * (x3 point - x2 center))"
    and "isDouble ((y3 point - y2 center) * (y3 point - y2 center))"
    and "isDouble (sqDistance center point)"
  shows "computedSqDistance center point = Finite (sqDistance center point)"
  using assms
  by (simp add: computedSqDistance_def isDouble_def sqDistance_def power2_eq_square)

text \<open>
  Claim C9. \<open>isPointInCircle\<close> holds exactly when the squared distance from the point to
  the centre, as computed in double arithmetic, is strictly below the computed square of
  the radius. When the two coordinate differences, their squares, the sum of the squares
  and the square of the radius are doubles, so that nothing is rounded, this is the test
  that the squared Euclidean distance is strictly below the squared radius, and a point on
  the boundary is excluded. With centre \<open>(0,0)\<close> and radius \<open>1\<close>, \<open>(0.5,0.5)\<close> is inside
  and \<open>(1,0)\<close> is outside.
\<close>

theorem isPointInCircle_computed:
  "(isPointInCircle center radius point
      \<longleftrightarrow> numLess (computedSqDistance center point) (mathPow2 (Finite radius)))
   \<and> (isDouble (x3 point - x2 center) \<and> isDouble (y3 point - y2 center)
        \<and> isDouble ((x3 point - x2 center) * (x3 point - x2 center))
        \<and> isDouble ((y3 point - y2 center) * (y3 point - y2 center))
        \<and> isDouble (sqDistance center point) \<and> isDouble (radius * radius) \<longrightarrow>
        (isPointInCircle center radius point \<longleftrightarrow> sqDistance center point < radius ^ 2)
        \<and> (sqDistance center point = radius ^ 2 \<longrightarrow> \<not> isPointInCircle center radius point))
   \<and> isPointInCircle (Vector2 0 0) 1 (Vector3 (1 / 2) (1 / 2) z)
   \<and> \<not> isPointInCircle (Vector2 0 0) 1 (Vector3 1 0 z)"
proof -
  have def: "isPointInCircle center radius point
      \<longleftrightarrow> numLess (computedSqDistance center point) (mathPow2 (Finite radius))"
    by (simp add: isPointInCircle_def computedSqDistance_def)
  have exact: "(isPointInCircle center radius point \<longleftrightarrow> sqDistance center point < radius ^ 2)
        \<and> (sqDistance center point = radius ^ 2 \<longrightarrow> \<not> isPointInCircle center radius point)"
    if "isDouble (x3 point - x2 center)" "isDouble (y3 point - y2 center)"
      "isDouble ((x3 point - x2 center) * (x3 point - x2 center))"
      "isDouble ((y3 point - y2 center) * (y3 point - y2 center))"
      "isDouble (sqDistance center point)" "isDouble (radius * radius)"
  proof -
    have "computedSqDistance center point = Finite (sqDistance center point)"
      using that(1-5) by (rule computedSqDistance_exact)
    moreover have "mathPow2 (Finite radius) = Finite (radius ^ 2)"
      using that(6) by (simp add: isDouble_def power2_eq_square)
    ultimately show ?thesis
      using def by simp
  qed
  have half: "isDouble (1 / 2)"
    using isDouble_exact [of "1 / 2" 1 "- 1"] by simp
  have quarter: "isDouble (1 / 4)"
    using isDouble_exact [of "1 / 4" 1 "- 2"] by simp
  have ins: "isPointInCircle (Vector2 0 0) 1 (Vector3 (1 / 2) (1 / 2) z)"
    using half quarter by (simp add: isPointInCircle_def isDouble_def double_eval)
  have out: "\<not> isPointInCircle (Vector2 0 0) 1 (Vector3 1 0 z)"
    by (simp add: isPointInCircle_def double_eval)
  from def exact ins out show ?thesis by blast
qed

theorem isPointInCircle_computed_witness:
  "isDouble (x3 (Vector3 (1 / 2) (1 / 2) 0) - x2 (Vector2 0 0))
   \<and> isDouble (sqDistance (Vector2 0 0) (Vector3 (1 / 2) (1 / 2) 0))
   \<and> isDouble (1 * 1)
   \<and> sqDistance (Vector2 0 0) (Vector3 (1 / 2) (1 / 2) 0) = 1 / 2
   \<and> isPointInCircle (Vector2 0 0) 1 (Vector3 (1 / 2) (1 / 2) 0)
   \<and> sqDistance (Vector2 0 0) (Vector3 1 0 0) = 1 ^ 2
   \<and> \<not> isPointInCircle (Vector2 0 0) 1 (Vector3 1 0 0)"
proof -
  have half: "isDouble (1 / 2)"
    using isDouble_exact [of "1 / 2" 1 "- 1"] by simp
  have quarter: "isDouble (1 / 4)"
    using isDouble_exact [of "1 / 4" 1 "- 2"] by simp
  have one: "isDouble 1" and zero: "isDouble 0"
    using isDouble_of_int [of 1] isDouble_of_int [of 0] by simp_all
  have d1: "sqDistance (Vector2 0 0) (Vector3 (1 / 2) (1 / 2) 0) = 1 / 2"
    by (simp add: sqDistance_def power2_eq_square)
  have d2: "sqDistance (Vector2 0 0) (Vector3 1 0 0) = 1 ^ 2"
    by (simp add: sqDistance_def)
  have h1: "isDouble (x3 (Vector3 (1 / 2) (1 / 2) 0) - x2 (Vector2 0 0))
     \<and> isDouble (y3 (Vector3 (1 / 2) (1 / 2) 0) - y2 (Vector2 0 0))
     \<and> isDouble ((x3 (Vector3 (1 / 2) (1 / 2) 0) - x2 (Vector2 0 0))
          * (x3 (Vector3 (1 / 2) (1 / 2) 0) - x2 (Vector2 0 0)))
     \<and> isDouble ((y3 (Vector3 (1 / 2) (1 / 2) 0) - y2 (Vector2 0 0))
          * (y3 (Vector3 (1 / 2) (1 / 2) 0) - y2 (Vector2 0 0)))
     \<and> isDouble (sqDistance (Vector2 0 0) (Vector3 (1 / 2) (1 / 2) 0)) \<and> isDouble (1 * 1)"
    using half quarter one by (simp add: d1)
  have h2: "isDouble (x3 (Vector3 1 0 0) - x2 (Vector2 0 0))
     \<and> isDouble (y3 (Vector3 1 0 0) - y2 (Vector2 0 0))
     \<and> isDouble ((x3 (Vector3 1 0 0) - x2 (Vector2 0 0)) * (x3 (Vector3 1 0 0) - x2 (Vector2 0 0)))
     \<and> isDouble ((y3 (Vector3 1 0 0) - y2 (Vector2 0 0)) * (y3 (Vector3 1 0 0) - y2 (Vector2 0 0)))
     \<and> isDouble (sqDistance (Vector2 0 0) (Vector3 1 0 0)) \<and> isDouble (1 * 1)"
    using zero one by (simp add: d2)
  have lt: "sqDistance (Vector2 0 0) (Vector3 (1 / 2) (1 / 2) 0) < 1 ^ 2"
    by (simp add: d1)
  have a: "isPointInCircle (Vector2 0 0) 1 (Vector3 (1 / 2) (1 / 2) 0)"
    using h1 lt isPointInCircle_computed [of "Vector2 0 0" 1 "Vector3 (1 / 2) (1 / 2) 0" 0]
    by blast
  have b: "\<not> isPointInCircle (Vector2 0 0) 1 (Vector3 1 0 0)"
    using h2 d2 isPointInCircle_computed [of "Vector2 0 0" 1 "Vector3 1 0 0" 0]
    by blast
  from h1 d1 d2 a b show ?thesis by blast
qed

text \<open>The squared Euclidean distance from \<open>(1,0)\<close> to the centre \<open>(2 powi (-60), 0)\<close> is
  below 1, but the difference \<open>1 - 2 powi (-60)\<close> rounds to 1 and the test fails.\<close>

theorem isPointInCircle_rounding_counterexample:
  "sqDistance (Vector2 (1 / 2 ^ 60) 0) (Vector3 1 0 0) < 1 ^ 2
   \<and> \<not> isPointInCircle (Vector2 (1 / 2 ^ 60) 0) 1 (Vector3 1 0 0)"
proof -
  have r: "roundToDouble (1 - 1 / 2 ^ 60) = 1"
    by (subst roundToDouble_binade [of "- 1"]) (simp_all add: roundHalfEven_def)
  have "roundNumber (1 - 1 / 2 ^ 60) = Finite 1"
    using roundNumber_finite [of "1 - 1 / 2 ^ 60"] by (simp only: r) simp
  then have "\<not> isPointInCircle (Vector2 (1 / 2 ^ 60) 0) 1 (Vector3 1 0 0)"
    by (simp add: isPointInCircle_def double_eval)
  moreover have "sqDistance (Vector2 (1 / 2 ^ 60) 0) (Vector3 1 0 0) < 1 ^ 2"
    by (simp add: sqDistance_def power2_eq_square)
  ultimately show ?thesis by simp
qed

lemma isPointInPolygon_loop_zero:
  "i < length polygon \<Longrightarrow> crossTerm point polygon i = 0 \<Longrightarrow>
   isPointInPolygon_loop point polygon i w = False"
  by (subst isPointInPolygon_loop.simps) (simp add: crossTerm_def Let_def)

lemma isPointInPolygon_loop_step:
  "i < length polygon \<Longrightarrow> crossTerm point polygon i \<noteq> 0 \<Longrightarrow>
   isPointInPolygon_loop point polygon i w =
   isPointInPolygon_loop point polygon (Suc i) (w + windingNumStep point polygon i)"
  by (subst isPointInPolygon_loop.simps)
     (auto simp: crossTerm_def Let_def windingNumStep_def crossesUpward_def
        strictlyDownward_def)

lemma isPointInPolygon_loop_end:
  "\<not> i < length polygon \<Longrightarrow> isPointInPolygon_loop point polygon i w = (w \<noteq> 0)"
  by (subst isPointInPolygon_loop.simps) simp

text \<open>The loop from index \<open>i\<close> with counter \<open>w\<close>: no remaining edge has a zero cross
  term, and the counter plus the remaining steps is not zero.\<close>

lemma isPointInPolygon_loop_eq:
  "isPointInPolygon_loop point polygon i w \<longleftrightarrow>
     (\<forall>j. i \<le> j \<and> j < length polygon \<longrightarrow> crossTerm point polygon j \<noteq> 0)
     \<and> w + sum_list (map (windingNumStep point polygon) [i..<length polygon]) \<noteq> 0"
proof (induction "length polygon - i" arbitrary: i w)
  case 0
  then have "\<not> i < length polygon" by simp
  then show ?case by (simp add: isPointInPolygon_loop_end)
next
  case (Suc k)
  then have lt: "i < length polygon" by simp
  show ?case
  proof (cases "crossTerm point polygon i = 0")
    case True
    with lt show ?thesis by (auto simp: isPointInPolygon_loop_zero)
  next
    case False
    have k: "k = length polygon - Suc i" using Suc.hyps(2) by simp
    have split: "[i..<length polygon] = i # [Suc i..<length polygon]"
      using lt by (simp add: upt_conv_Cons)
    have all: "(\<forall>j. i \<le> j \<and> j < length polygon \<longrightarrow> crossTerm point polygon j \<noteq> 0)
       \<longleftrightarrow> (\<forall>j. Suc i \<le> j \<and> j < length polygon \<longrightarrow> crossTerm point polygon j \<noteq> 0)"
      using False by (metis Suc_leI le_neq_implies_less Suc_leD)
    show ?thesis
      unfolding isPointInPolygon_loop_step [OF lt False] Suc.hyps(1) [OF k] split all
      by (simp add: add.assoc)
  qed
qed

lemmas isPointInPolygon_eval =
  isPointInPolygon_loop_zero isPointInPolygon_loop_step isPointInPolygon_loop_end
  crossTerm_def windingNumStep_def windingContribution_def crossesUpward_def
  crossesDownward_def strictlyDownward_def substitutePointOnLine_def

text \<open>
  What the loop computes, for every point and polygon: the result is true exactly when no
  edge has a zero cross term and the sum of the steps of the loop is not zero. A zero cross
  term on any edge, wherever it is in the list, makes the result false.
\<close>

lemma isPointInPolygon_windingNumTotal:
  "isPointInPolygon point polygon \<longleftrightarrow>
     (\<forall>i<length polygon. crossTerm point polygon i \<noteq> 0) \<and> windingNumTotal point polygon \<noteq> 0"
  by (simp add: isPointInPolygon_def windingNumTotal_def isPointInPolygon_loop_eq)

lemma isPointInPolygon_zero_crossTerm:
  "i < length polygon \<Longrightarrow> crossTerm point polygon i = 0 \<Longrightarrow> \<not> isPointInPolygon point polygon"
  using isPointInPolygon_windingNumTotal [of point polygon] by blast

text \<open>When no vertex lies at the height of the point, the steps of the loop are the
  contributions to the winding number, and the result is as the winding number says.\<close>

lemma windingNumStep_eq_windingContribution:
  assumes "\<forall>v\<in>set polygon. y2 v \<noteq> y3 point" and "i < length polygon"
  shows "windingNumStep point polygon i = windingContribution point polygon i"
proof -
  have "0 < length polygon"
    using assms(2) by (cases polygon) simp_all
  then have "(i + 1) mod length polygon < length polygon"
    by (rule mod_less_divisor)
  then have "y2 (polygon ! ((i + 1) mod length polygon)) \<noteq> y3 point"
    using assms(1) by (metis nth_mem)
  then show ?thesis
    by (auto simp: windingNumStep_def windingContribution_def strictlyDownward_def
        crossesDownward_def)
qed

lemma isPointInPolygon_no_vertex_at_height:
  assumes "\<forall>v\<in>set polygon. y2 v \<noteq> y3 point"
  shows "isPointInPolygon point polygon \<longleftrightarrow>
     (\<forall>i<length polygon. crossTerm point polygon i \<noteq> 0) \<and> windingNumber point polygon \<noteq> 0"
proof -
  have "map (windingNumStep point polygon) [0..<length polygon]
      = map (windingContribution point polygon) [0..<length polygon]"
    using assms by (intro map_cong refl windingNumStep_eq_windingContribution) simp_all
  then have "windingNumTotal point polygon = windingNumber point polygon"
    by (simp only: windingNumTotal_def windingNumber_def)
  then show ?thesis
    by (simp add: isPointInPolygon_windingNumTotal)
qed

text \<open>The square \<open>[(-1,-1),(1,-1),(1,1),(-1,1)]\<close>: \<open>(0,0)\<close> is inside, \<open>(2,2)\<close> is
  outside, and \<open>(1,0)\<close>, on an edge, is outside.\<close>

lemma isPointInPolygon_unitSquare:
  "isPointInPolygon (Vector3 0 0 z) unitSquare
   \<and> \<not> isPointInPolygon (Vector3 2 2 z) unitSquare
   \<and> \<not> isPointInPolygon (Vector3 1 0 z) unitSquare"
  unfolding isPointInPolygon_def unitSquare_def by (simp add: isPointInPolygon_eval)

text \<open>Listing the vertices in the opposite order changes the sign of the winding number,
  so whether it is zero does not depend on the orientation of the vertex list.\<close>

lemma substitutePointOnLine_swap:
  "substitutePointOnLine b a p = - substitutePointOnLine a b p"
  by (simp add: substitutePointOnLine_def algebra_simps)

lemma rev_edge_ends:
  assumes "i < length P"
  shows "rev P ! i = P ! ((mirrorEdge (length P) i + 1) mod length P)
       \<and> rev P ! ((i + 1) mod length P) = P ! mirrorEdge (length P) i"
proof (cases "Suc i = length P")
  case True
  have "rev P ! 0 = P ! (length P - Suc 0)"
    using assms by (intro rev_nth) auto
  also have "length P - Suc 0 = i"
    using True by simp
  finally have first: "rev P ! 0 = P ! i" .
  have "rev P ! i = P ! (length P - Suc i)"
    using assms by (rule rev_nth)
  then have last: "rev P ! i = P ! 0"
    using True by simp
  from True first last show ?thesis
    by (simp add: mirrorEdge_def)
next
  case False
  with assms have lt: "Suc i < length P" by simp
  then have "(mirrorEdge (length P) i + 1) mod length P = length P - Suc i"
    using False by (simp add: mirrorEdge_def)
  moreover have "(i + 1) mod length P = Suc i"
    using lt by simp
  moreover have "length P - Suc (Suc i) = mirrorEdge (length P) i"
    using False by (simp add: mirrorEdge_def)
  ultimately show ?thesis
    using assms lt by (simp add: rev_nth)
qed

lemma windingContribution_rev:
  assumes "i < length P"
  shows "windingContribution p (rev P) i = - windingContribution p P (mirrorEdge (length P) i)"
  using rev_edge_ends [OF assms]
  by (auto simp: windingContribution_def crossesUpward_def crossesDownward_def crossTerm_def
      substitutePointOnLine_swap [of "P ! mirrorEdge (length P) i"])

lemma mirrorEdge_bij:
  "i < n \<Longrightarrow> mirrorEdge n i < n \<and> mirrorEdge n (mirrorEdge n i) = i"
  by (auto simp: mirrorEdge_def)

lemma windingNumber_rev: "windingNumber p (rev P) = - windingNumber p P"
proof -
  let ?n = "length P"
  have "windingNumber p (rev P) = (\<Sum>i\<in>{0..<?n}. windingContribution p (rev P) i)"
    by (simp add: windingNumber_def interv_sum_list_conv_sum_set_nat)
  also have "\<dots> = (\<Sum>i\<in>{0..<?n}. - windingContribution p P (mirrorEdge ?n i))"
    by (intro sum.cong refl) (simp add: windingContribution_rev)
  also have "\<dots> = (\<Sum>j\<in>{0..<?n}. - windingContribution p P j)"
    by (rule sum.reindex_bij_witness [of _ "mirrorEdge ?n" "mirrorEdge ?n"])
       (auto simp: mirrorEdge_bij)
  also have "\<dots> = - windingNumber p P"
    by (simp add: windingNumber_def interv_sum_list_conv_sum_set_nat sum_negf)
  finally show ?thesis .
qed

text \<open>
  Claim C1. \<open>isPointInPolygon\<close> should return true exactly when the winding number is
  not zero, unless some edge has a zero cross term. The downward test of the loop is strict
  where the upward test is not, so a downward passage of the boundary through a vertex at
  the height of the point is counted for neither of the two edges that meet there. For the
  clockwise square with the vertex \<open>(1,0)\<close> on its right side and the point \<open>(0,0)\<close> at
  its centre, no cross term is zero and the winding number is \<open>-1\<close>, yet the result is
  false; for the same vertices in the opposite order, where the winding number is \<open>1\<close>,
  the result is true.
\<close>

theorem isPointInPolygon_downward_vertex:
  "length squareClockwise = 5
   \<and> crossTerm (Vector3 0 0 0) squareClockwise 0 = - 2
   \<and> crossTerm (Vector3 0 0 0) squareClockwise 1 = - 2
   \<and> crossTerm (Vector3 0 0 0) squareClockwise 2 = - 1
   \<and> crossTerm (Vector3 0 0 0) squareClockwise 3 = - 1
   \<and> crossTerm (Vector3 0 0 0) squareClockwise 4 = - 2
   \<and> windingNumber (Vector3 0 0 0) squareClockwise = - 1
   \<and> windingNumTotal (Vector3 0 0 0) squareClockwise = 0
   \<and> \<not> isPointInPolygon (Vector3 0 0 0) squareClockwise
   \<and> windingNumber (Vector3 0 0 0) (rev squareClockwise) = 1
   \<and> isPointInPolygon (Vector3 0 0 0) (rev squareClockwise)"
proof -
  have ct: "length squareClockwise = 5
     \<and> crossTerm (Vector3 0 0 0) squareClockwise 0 = - 2
     \<and> crossTerm (Vector3 0 0 0) squareClockwise 1 = - 2
     \<and> crossTerm (Vector3 0 0 0) squareClockwise 2 = - 1
     \<and> crossTerm (Vector3 0 0 0) squareClockwise 3 = - 1
     \<and> crossTerm (Vector3 0 0 0) squareClockwise 4 = - 2"
    unfolding squareClockwise_def by (simp add: isPointInPolygon_eval)
  have wn: "windingNumber (Vector3 0 0 0) squareClockwise = - 1"
    unfolding windingNumber_def squareClockwise_def
    by (simp add: isPointInPolygon_eval upt_conv_Cons)
  have total: "windingNumTotal (Vector3 0 0 0) squareClockwise = 0"
    unfolding windingNumTotal_def squareClockwise_def
    by (simp add: isPointInPolygon_eval upt_conv_Cons)
  have out: "\<not> isPointInPolygon (Vector3 0 0 0) squareClockwise"
    unfolding isPointInPolygon_def squareClockwise_def by (simp add: isPointInPolygon_eval)
  have wn_rev: "windingNumber (Vector3 0 0 0) (rev squareClockwise) = 1"
    unfolding windingNumber_def squareClockwise_def
    by (simp add: isPointInPolygon_eval upt_conv_Cons)
  have ins: "isPointInPolygon (Vector3 0 0 0) (rev squareClockwise)"
    unfolding isPointInPolygon_def squareClockwise_def by (simp add: isPointInPolygon_eval)
  from ct wn total out wn_rev ins show ?thesis by blast
qed

section \<open>Properties of PointBuffer\<close>

text \<open>
  Claim C8. \<open>checkNumChannels\<close> returns the requested count, with no diagnostic, when the
  count is at least 3 and divides the data length; it logs one diagnostic and returns 3 when
  the count is below 3; it logs one diagnostic and returns the data length when the count is
  at least 3 and does not divide the data length, so ten elements with three channels give
  10. It returns a value for every input: there is no failing branch.
\<close>

theorem checkNumChannels_cases:
  "(3 \<le> n \<and> int (length xs) mod n = 0 \<longrightarrow>
      checkNumChannels xs n = (n, []))
   \<and> (n < 3 \<longrightarrow>
      checkNumChannels xs n = (3, [NumChannelsBelow3 n]))
   \<and> (3 \<le> n \<and> int (length xs) mod n \<noteq> 0 \<longrightarrow>
      checkNumChannels xs n
        = (int (length xs), [NumChannelsNotDividing n (length xs)]))
   \<and> checkNumChannels [1, 2, 3, 4, 5, 6, 7, 8, 9, 10] 3
        = (10, [NumChannelsNotDividing 3 10])
   \<and> (\<exists>r msgs. checkNumChannels xs n = (r, msgs))"
  by (simp add: checkNumChannels_def)

theorem checkNumChannels_cases_witness:
  "(3::int) \<le> 4 \<and> int (length [1, 2, 3, 4, 5, 6, 7, 8 :: real]) mod 4 = 0
   \<and> checkNumChannels [1, 2, 3, 4, 5, 6, 7, 8] 4 = (4, [])
   \<and> (2::int) < 3
   \<and> checkNumChannels [1, 2, 3, 4, 5, 6, 7, 8] 2 = (3, [NumChannelsBelow3 2])
   \<and> (3::int) \<le> 3 \<and> int (length [1, 2, 3, 4, 5, 6, 7, 8 :: real]) mod 3 \<noteq> 0
   \<and> checkNumChannels [1, 2, 3, 4, 5, 6, 7, 8] 3 = (8, [NumChannelsNotDividing 3 8])"
  using checkNumChannels_cases [of 4 "[1, 2, 3, 4, 5, 6, 7, 8]"]
    checkNumChannels_cases [of 2 "[1, 2, 3, 4, 5, 6, 7, 8]"]
    checkNumChannels_cases [of 3 "[1, 2, 3, 4, 5, 6, 7, 8]"]
  by simp

lemma checkNumChannels_pos: "0 < fst (checkNumChannels xs n)"
  by (auto simp: checkNumChannels_def)

text \<open>When the requested channel count is at least 3, the stored count divides the data
  length and \<open>numPoints\<close> is the integer quotient.\<close>

lemma newPointBuffer_numPoints_ge3:
  assumes n: "3 \<le> n" and len: "int (length xs) < 2 ^ 53"
  shows "numPointsIsFloor (fst (newPointBuffer xs f n))"
proof (cases "int (length xs) mod n = 0")
  case True
  then obtain k where k: "int (length xs) = n * k"
    by (auto simp: mod_eq_0_iff_dvd)
  have "real (length xs) = real_of_int n * real_of_int k"
    using k by (metis of_int_mult of_int_of_nat_eq)
  with n have q: "real (length xs) / real_of_int n = real_of_int k"
    by simp
  have "0 \<le> k"
    using k n by (smt (verit) of_nat_0_le_iff zero_le_mult_iff)
  moreover have "k \<le> int (length xs)"
    using k n \<open>0 \<le> k\<close> by (smt (verit) mult_le_cancel_right1 mult.commute)
  ultimately have "\<bar>k\<bar> < 2 ^ 53"
    using len by simp
  then have "roundToDouble (real_of_int k) = real_of_int k"
    by (rule roundToDouble_of_int)
  with True n q show ?thesis
    by (simp add: newPointBuffer_def checkNumChannels_def numPointsIsFloor_def)
next
  case False
  then have "length xs \<noteq> 0" by auto
  with False n show ?thesis
    by (simp add: newPointBuffer_def checkNumChannels_def numPointsIsFloor_def roundToDouble_1)
qed

lemma newPointBuffer_example_12_3:
  "numPoints (fst (newPointBuffer [1, 2, 3, 4, 5, 6, 7, 8, 9, 10, 11, 12] f 3)) = 4
   \<and> getPoint (fst (newPointBuffer [1, 2, 3, 4, 5, 6, 7, 8, 9, 10, 11, 12] f 3)) 0
       = ([1, 2, 3], [])"
  by (simp add: newPointBuffer_def checkNumChannels_def getPoint_def checkPointIdx_def
      slice_def toIntegerJS_def double_eval)

text \<open>
  Claim C7. After construction \<open>numPoints\<close> should be the floor of the data length divided
  by the stored channel count, also after the fallback. The constructor stores the plain
  quotient, and the fallback to 3 for a requested count below 3 is returned before the test
  that the count divides the length: ten values with a requested count of 2 are stored with
  3 channels and \<open>numPoints\<close> the double nearest to \<open>10 / 3\<close>, that is
  \<open>7505999378950827 / 2 ^ 51\<close> (3.3333333333333335), which is not an integer.
\<close>

theorem newPointBuffer_numPoints_fallback3:
  "numChannels (fst (newPointBuffer [1, 2, 3, 4, 5, 6, 7, 8, 9, 10] XYZ 2)) = 3
   \<and> numPoints (fst (newPointBuffer [1, 2, 3, 4, 5, 6, 7, 8, 9, 10] XYZ 2))
       = 7505999378950827 / 2 ^ 51
   \<and> \<not> numPointsIsFloor (fst (newPointBuffer [1, 2, 3, 4, 5, 6, 7, 8, 9, 10] XYZ 2))"
proof -
  have r: "roundToDouble (10 / 3) = 7505999378950827 / 2 ^ 51"
    by (subst roundToDouble_binade [of 1]) (simp_all add: roundHalfEven_def)
  show ?thesis
    by (simp add: newPointBuffer_def checkNumChannels_def numPointsIsFloor_def r)
qed

text \<open>With a fractional \<open>numPoints\<close> the buffer has a last, incomplete point: its missing
  coordinates are 0, and an index beyond the end is clamped to a fraction, so that after
  rounding the slice is the whole data.\<close>

lemma getCoords_fractional_numPoints:
  "getCoords (fst (newPointBuffer [1, 2, 3, 4, 5, 6, 7, 8, 9, 10] XYZ 2))
     = Inr [Vector3 1 2 3, Vector3 4 5 6, Vector3 7 8 9, Vector3 10 0 0]"
proof -
  have r: "roundToDouble (10 / 3) = 7505999378950827 / 2251799813685248"
    by (subst roundToDouble_binade [of 1]) (simp_all add: roundHalfEven_def)
  show ?thesis
    by (simp add: newPointBuffer_def checkNumChannels_def getCoords_def range'_def
        getPointCoords_def getPoint_def checkPointIdx_def slice_def toIntegerJS_def
        destructure3_def toThreeJSCoords_def bindE_def getComponent_def XYZ_def
        mkCoordinateFormatSpec_def upt_conv_Cons r double_eval)
qed

lemma getPoint_fractional_numPoints:
  "getPoint (fst (newPointBuffer [1, 2, 3, 4] XYZ 2)) 5
     = ([1, 2, 3, 4], [PointIdxOutOfRange 5 (6004799503160661 / 4503599627370496)])"
proof -
  have r: "roundToDouble (4 / 3) = 6004799503160661 / 4503599627370496"
    by (subst roundToDouble_binade [of 0]) (simp_all add: roundHalfEven_def)
  have r1: "roundToDouble (1501199875790165 / 4503599627370496)
      = 1501199875790165 / 4503599627370496"
    by (subst roundToDouble_binade [of "- 2"]) (simp_all add: roundHalfEven_def)
  have r2: "roundToDouble (4503599627370495 / 4503599627370496)
      = 4503599627370495 / 4503599627370496"
    by (subst roundToDouble_binade [of "- 1"]) (simp_all add: roundHalfEven_def)
  have r3: "roundToDouble (6004799503160661 / 4503599627370496)
      = 6004799503160661 / 4503599627370496"
    by (subst roundToDouble_binade [of 0]) (simp_all add: roundHalfEven_def)
  have r4: "roundToDouble (18014398509481983 / 4503599627370496) = 4"
    by (subst roundToDouble_binade [of 1]) (simp_all add: roundHalfEven_def)
  show ?thesis
    by (simp add: newPointBuffer_def checkNumChannels_def getPoint_def checkPointIdx_def
        clamp_def slice_def toIntegerJS_def r r1 r2 r3 r4)
qed

section \<open>Properties of Picker\<close>

lemma every_iff: "every xs P \<longleftrightarrow> (\<forall>x\<in>set xs. P x)"
  by (induction xs) auto

lemma getHoveredObj_loop_no_hit:
  "(\<forall>x\<in>set xs. cast x = [] \<or> \<not> lessThanMin (distance (hd (cast x))) m) \<Longrightarrow>
   getHoveredObj_loop cast xs h m = h"
  by (induction xs arbitrary: h m) (auto simp: Let_def)

lemma getHoveredObj_loop_hit:
  "\<not> (\<forall>x\<in>set xs. cast x = [] \<or> \<not> lessThanMin (distance (hd (cast x))) m) \<Longrightarrow>
   \<exists>ys obj zs. xs = ys @ obj # zs \<and> getHoveredObj_loop cast xs h m = Some obj
     \<and> cast obj \<noteq> [] \<and> lessThanMin (distance (hd (cast obj))) m
     \<and> (\<forall>y\<in>set ys. cast y \<noteq> [] \<longrightarrow> distance (hd (cast obj)) < distance (hd (cast y)))
     \<and> (\<forall>z\<in>set zs. cast z \<noteq> [] \<longrightarrow> distance (hd (cast obj)) \<le> distance (hd (cast z)))"
proof (induction xs arbitrary: h m)
  case Nil
  then show ?case by simp
next
  case (Cons x xs)
  let ?d = "\<lambda>ob. distance (hd (cast ob))"
  let ?nohit = "\<lambda>l m'. \<forall>x\<in>set l. cast x = [] \<or> \<not> lessThanMin (?d x) m'"
  show ?case
  proof (cases "cast x \<noteq> [] \<and> lessThanMin (?d x) m")
    case True
    then have step: "getHoveredObj_loop cast (x # xs) h m
        = getHoveredObj_loop cast xs (Some x) (Some (?d x))"
      by (simp add: Let_def)
    show ?thesis
    proof (cases "?nohit xs (Some (?d x))")
      case nh: True
      then have "getHoveredObj_loop cast xs (Some x) (Some (?d x)) = Some x"
        by (rule getHoveredObj_loop_no_hit)
      moreover have "\<forall>z\<in>set xs. cast z \<noteq> [] \<longrightarrow> ?d x \<le> ?d z"
        using nh by (auto simp: lessThanMin_def)
      ultimately show ?thesis
        using True step by (intro exI [of _ "[]"] exI [of _ x] exI [of _ xs]) simp
    next
      case False
      from Cons.IH [OF False, of "Some x"] obtain ys obj zs where
        r: "xs = ys @ obj # zs"
           "getHoveredObj_loop cast xs (Some x) (Some (?d x)) = Some obj"
           "cast obj \<noteq> []" "lessThanMin (?d obj) (Some (?d x))"
           "\<forall>y\<in>set ys. cast y \<noteq> [] \<longrightarrow> ?d obj < ?d y"
           "\<forall>z\<in>set zs. cast z \<noteq> [] \<longrightarrow> ?d obj \<le> ?d z"
        by blast
      have lt: "?d obj < ?d x" using r(4) by (simp add: lessThanMin_def)
      have "lessThanMin (?d obj) m"
        using True lt by (auto simp: lessThanMin_def split: option.splits)
      then show ?thesis
        using r lt step
        by (intro exI [of _ "x # ys"] exI [of _ obj] exI [of _ zs]) auto
    qed
  next
    case False
    then have step: "getHoveredObj_loop cast (x # xs) h m = getHoveredObj_loop cast xs h m"
      by (auto simp: Let_def)
    from False Cons.prems have "\<not> ?nohit xs m" by auto
    from Cons.IH [OF this, of h] obtain ys obj zs where
      r: "xs = ys @ obj # zs"
         "getHoveredObj_loop cast xs h m = Some obj"
         "cast obj \<noteq> []" "lessThanMin (?d obj) m"
         "\<forall>y\<in>set ys. cast y \<noteq> [] \<longrightarrow> ?d obj < ?d y"
         "\<forall>z\<in>set zs. cast z \<noteq> [] \<longrightarrow> ?d obj \<le> ?d z"
      by blast
    have "cast x \<noteq> [] \<longrightarrow> ?d obj < ?d x"
      using False r(4) by (auto simp: lessThanMin_def split: option.splits)
    then show ?thesis
      using r step
      by (intro exI [of _ "x # ys"] exI [of _ obj] exI [of _ zs]) auto
  qed
qed


lemma getHoveredObj_None_iff:
  "getHoveredObj this = None \<longleftrightarrow> (\<forall>ob\<in>set (objects this). \<not> intersected this ob)"
proof (cases "\<forall>ob\<in>set (objects this). \<not> intersected this ob")
  case True
  then have "getHoveredObj this = None"
    unfolding getHoveredObj_def intersected_def
    by (intro getHoveredObj_loop_no_hit) simp
  with True show ?thesis by simp
next
  case False
  then have "\<not> (\<forall>x\<in>set (objects this). raycastFunc this x (raycaster this) = []
      \<or> \<not> lessThanMin (distance (hd (raycastFunc this x (raycaster this)))) None)"
    by (simp add: intersected_def lessThanMin_def)
  from getHoveredObj_loop_hit [OF this, of None] False show ?thesis
    unfolding getHoveredObj_def by auto
qed

lemma getHoveredObj_Some_split:
  assumes "getHoveredObj this = Some ob"
  shows "\<exists>before after. objects this = before @ ob # after
           \<and> intersected this ob
           \<and> (\<forall>y\<in>set before. intersected this y \<longrightarrow> firstDistance this ob < firstDistance this y)
           \<and> (\<forall>z\<in>set after. intersected this z \<longrightarrow> firstDistance this ob \<le> firstDistance this z)"
proof -
  from assms have "\<not> (\<forall>ob\<in>set (objects this). \<not> intersected this ob)"
    using getHoveredObj_None_iff [of this] by simp
  then have "\<not> (\<forall>x\<in>set (objects this). raycastFunc this x (raycaster this) = []
      \<or> \<not> lessThanMin (distance (hd (raycastFunc this x (raycaster this)))) None)"
    by (simp add: intersected_def lessThanMin_def)
  from getHoveredObj_loop_hit [OF this, of None] assms show ?thesis
    unfolding getHoveredObj_def intersected_def firstDistance_def by auto
qed

lemma getHoveredObj_member:
  "getHoveredObj this = Some ob \<Longrightarrow> ob \<in> set (objects this)"
  using getHoveredObj_Some_split [of this ob] by auto

lemma set_objects_fields:
  "objects (fst (set_objects same value this)) = value
   \<and> raycastFunc (fst (set_objects same value this)) = raycastFunc this
   \<and> raycaster (fst (set_objects same value this)) = raycaster this"
  by (simp add: set_objects_def set_selectedObj_def set_hoveredObj_def setSelectedObj_def
      setHoveredObj_def Let_def split: prod.splits)

text \<open>
  Claim C3. \<open>getHoveredObj\<close> returns null exactly when no object of the set is
  intersected. Otherwise it returns an intersected object of the set whose first
  intersection is strictly nearer than that of every intersected object before it in
  iteration order and at least as near as that of every intersected object after it: the
  global minimum, the first one seen among equals. Objects without intersections play no
  part. The result is always an element of the current set, so after the set is replaced by
  one without some object (or the same collection is assigned again when it no longer has the
  object), that object cannot be returned.
\<close>

theorem getHoveredObj_nearest:
  "(getHoveredObj this = None \<longleftrightarrow> (\<forall>ob\<in>set (objects this). \<not> intersected this ob))
   \<and> (\<forall>ob. getHoveredObj this = Some ob \<longrightarrow>
        (\<exists>before after. objects this = before @ ob # after
           \<and> intersected this ob
           \<and> (\<forall>y\<in>set before. intersected this y \<longrightarrow> firstDistance this ob < firstDistance this y)
           \<and> (\<forall>z\<in>set after. intersected this z \<longrightarrow> firstDistance this ob \<le> firstDistance this z)))
   \<and> (\<forall>ob same value. ob \<notin> set value \<longrightarrow>
        getHoveredObj (fst (set_objects same value this)) \<noteq> Some ob)"
proof -
  have "getHoveredObj (fst (set_objects same objs this)) \<noteq> Some ob"
    if "ob \<notin> set objs" for ob same objs
    using that getHoveredObj_member [of "fst (set_objects same objs this)" ob]
    by (auto simp: set_objects_fields)
  then show ?thesis
    using getHoveredObj_None_iff [of this] getHoveredObj_Some_split [of this] by blast
qed

theorem getHoveredObj_nearest_witness:
  "getHoveredObj examplePicker = Some 1
   \<and> objects examplePicker = [0] @ 1 # [2]
   \<and> intersected examplePicker 1
   \<and> firstDistance examplePicker 1 < firstDistance examplePicker 0
   \<and> firstDistance examplePicker 1 \<le> firstDistance examplePicker 2
   \<and> 1 \<notin> set [0, 2 :: nat]
   \<and> getHoveredObj (fst (set_objects False [0, 2] examplePicker)) = Some 0
   \<and> getHoveredObj (fst (set_objects False [0, 2] examplePicker)) \<noteq> Some 1
   \<and> getHoveredObj (fst (set_objects False [3] examplePicker)) = None"
proof -
  have a: "getHoveredObj examplePicker = Some 1"
    by (simp add: getHoveredObj_def examplePicker_def lessThanMin_def)
  have b: "getHoveredObj (fst (set_objects False [0, 2] examplePicker)) = Some 0"
    by (simp add: getHoveredObj_def examplePicker_def lessThanMin_def set_objects_def
        set_selectedObj_def set_hoveredObj_def setSelectedObj_def setHoveredObj_def)
  have c: "getHoveredObj (fst (set_objects False [3] examplePicker)) = None"
    by (simp add: getHoveredObj_def examplePicker_def lessThanMin_def set_objects_def
        set_selectedObj_def set_hoveredObj_def setSelectedObj_def setHoveredObj_def)
  have d: "intersected examplePicker 1 \<and> firstDistance examplePicker 1 < firstDistance examplePicker 0
       \<and> firstDistance examplePicker 1 \<le> firstDistance examplePicker 2"
    by (simp add: intersected_def firstDistance_def examplePicker_def)
  have e: "objects examplePicker = [0] @ 1 # [2]"
    by (simp add: examplePicker_def)
  show ?thesis
    using a b c d e getHoveredObj_nearest [of examplePicker] by simp
qed

text \<open>
  Claim C6. Assigning the hovered or the selected object is a guarded write. When the new
  value equals the current one, the state is unchanged and nothing is dispatched or logged.
  When it differs, the field is set to the new value, and the dispatched events are, in
  this order, the "out" event for the previous value if that is not null and the "in" event
  for the new value if that is not null, each carrying the pointer flag of the call. A
  warning is logged exactly when the new value is an object that is not in the tracked set;
  the transition is made all the same.
\<close>

theorem setHoveredObj_setSelectedObj_guarded:
  "(value = hoveredObj this \<longrightarrow> setHoveredObj value fromPointer this = (this, []))
   \<and> (value \<noteq> hoveredObj this \<longrightarrow>
        fst (setHoveredObj value fromPointer this) = this\<lparr>hoveredObj := value\<rparr>
        \<and> dispatched (snd (setHoveredObj value fromPointer this))
            = (case hoveredObj this of None \<Rightarrow> []
               | Some prev \<Rightarrow> [PickerEvent Hoverout prev fromPointer])
              @ (case value of None \<Rightarrow> []
                 | Some v \<Rightarrow> [PickerEvent Hoverin v fromPointer])
        \<and> (warnings (snd (setHoveredObj value fromPointer this)) \<noteq> []
             \<longleftrightarrow> (\<exists>v. value = Some v \<and> v \<notin> set (objects this))))
   \<and> (value = selectedObj this \<longrightarrow> setSelectedObj value fromPointer this = (this, []))
   \<and> (value \<noteq> selectedObj this \<longrightarrow>
        fst (setSelectedObj value fromPointer this) = this\<lparr>selectedObj := value\<rparr>
        \<and> dispatched (snd (setSelectedObj value fromPointer this))
            = (case selectedObj this of None \<Rightarrow> []
               | Some prev \<Rightarrow> [PickerEvent Selectout prev fromPointer])
              @ (case value of None \<Rightarrow> []
                 | Some v \<Rightarrow> [PickerEvent Selectin v fromPointer])
        \<and> (warnings (snd (setSelectedObj value fromPointer this)) \<noteq> []
             \<longleftrightarrow> (\<exists>v. value = Some v \<and> v \<notin> set (objects this))))"
  by (auto simp: setHoveredObj_def setSelectedObj_def Let_def every_iff split: option.splits)

theorem setHoveredObj_setSelectedObj_guarded_witness:
  "Some 2 \<noteq> hoveredObj (examplePicker\<lparr>hoveredObj := Some 1\<rparr>)
   \<and> dispatched (snd (setHoveredObj (Some 2) True (examplePicker\<lparr>hoveredObj := Some 1\<rparr>)))
       = [PickerEvent Hoverout 1 True, PickerEvent Hoverin 2 True]
   \<and> warnings (snd (setHoveredObj (Some 2) True (examplePicker\<lparr>hoveredObj := Some 1\<rparr>))) = []
   \<and> Some 7 \<noteq> selectedObj examplePicker
   \<and> snd (setSelectedObj (Some 7) False examplePicker)
       = [ConsoleWarn ''This picker does not interact with the object to select'',
          Dispatch (PickerEvent Selectin 7 False)]
   \<and> selectedObj (fst (setSelectedObj (Some 7) False examplePicker)) = Some 7
   \<and> None = selectedObj examplePicker
   \<and> setSelectedObj None True examplePicker = (examplePicker, [])"
proof -
  have a: "snd (setSelectedObj (Some 7) False examplePicker)
       = [ConsoleWarn ''This picker does not interact with the object to select'',
          Dispatch (PickerEvent Selectin 7 False)]"
    by (simp add: setSelectedObj_def examplePicker_def)
  have b: "warnings (snd (setHoveredObj (Some 2) True (examplePicker\<lparr>hoveredObj := Some 1\<rparr>))) = []"
    by (simp add: setHoveredObj_def examplePicker_def)
  have c: "hoveredObj (examplePicker\<lparr>hoveredObj := Some 1\<rparr>) = Some 1
     \<and> selectedObj examplePicker = None"
    by (simp add: examplePicker_def)
  show ?thesis
    using a b c
      setHoveredObj_setSelectedObj_guarded
        [of "Some 2" "examplePicker\<lparr>hoveredObj := Some 1\<rparr>" True]
      setHoveredObj_setSelectedObj_guarded [of "Some 7" examplePicker False]
      setHoveredObj_setSelectedObj_guarded [of None examplePicker True]
    by simp
qed

text \<open>
  Claim C10. Setting \<open>hoverEnabled\<close> to false sets \<open>hoveredObj\<close> to null, dispatches one
  \<open>hoverout\<close> event (for the previously hovered object, not from the pointer) when there
  was one and nothing otherwise, and leaves \<open>selectedObj\<close> and \<open>objects\<close> as they were.
  Setting \<open>selectEnabled\<close> to false changes that field only and produces no output.
\<close>

theorem set_hoverEnabled_set_selectEnabled_false:
  "set_hoverEnabled False this
     = (this\<lparr>hoverEnabled := False, hoveredObj := None\<rparr>,
        (case hoveredObj this of None \<Rightarrow> []
         | Some prev \<Rightarrow> [Dispatch (PickerEvent Hoverout prev False)]))
   \<and> hoveredObj (fst (set_hoverEnabled False this)) = None
   \<and> selectedObj (fst (set_hoverEnabled False this)) = selectedObj this
   \<and> objects (fst (set_hoverEnabled False this)) = objects this
   \<and> (snd (set_hoverEnabled False this) \<noteq> [] \<longleftrightarrow> hoveredObj this \<noteq> None)
   \<and> set_selectEnabled False this = (this\<lparr>selectEnabled := False\<rparr>, [])
   \<and> hoveredObj (fst (set_selectEnabled False this)) = hoveredObj this
   \<and> selectedObj (fst (set_selectEnabled False this)) = selectedObj this
   \<and> objects (fst (set_selectEnabled False this)) = objects this"
  by (cases "hoveredObj this")
     (auto simp: set_hoverEnabled_def set_selectEnabled_def set_hoveredObj_def
        setHoveredObj_def Let_def)

theorem set_hoverEnabled_set_selectEnabled_false_witness:
  "set_hoverEnabled False (examplePicker\<lparr>hoveredObj := Some 1, selectedObj := Some 2\<rparr>)
     = (examplePicker\<lparr>hoverEnabled := False, hoveredObj := None, selectedObj := Some 2\<rparr>,
        [Dispatch (PickerEvent Hoverout 1 False)])
   \<and> set_hoverEnabled False examplePicker = (examplePicker\<lparr>hoverEnabled := False\<rparr>, [])
   \<and> selectedObj (fst (set_selectEnabled False
        (examplePicker\<lparr>hoveredObj := Some 1, selectedObj := Some 2\<rparr>))) = Some 2"
  using set_hoverEnabled_set_selectEnabled_false
      [of "examplePicker\<lparr>hoveredObj := Some 1, selectedObj := Some 2\<rparr>"]
    set_hoverEnabled_set_selectEnabled_false [of examplePicker]
  by (simp add: examplePicker_def)

section \<open>Properties of EditSelection\<close>

lemma isPointInObject_Some: "isPointInObject object (Some p) = Inr (shapeContains object p)"
  by (simp add: isPointInObject_def shapeContains_def split: Shape.splits)

text \<open>Filtering by index against a cache that has an entry for every element.\<close>

lemma filterE_cache:
  "i + length xs \<le> length ndc \<Longrightarrow>
   filterE (\<lambda>j. isPointInObject object (arrayGet ndc j)) xs i
     = Inr (map fst (filter (\<lambda>(p, n). shapeContains object n) (zip xs (drop i ndc))))"
proof (induction xs arbitrary: i)
  case Nil
  then show ?case by simp
next
  case (Cons x xs)
  then have lt: "i < length ndc" and rest: "Suc i + length xs \<le> length ndc"
    by simp_all
  have d: "drop i ndc = ndc ! i # drop (Suc i) ndc"
    using lt by (simp add: Cons_nth_drop_Suc)
  show ?case
    using Cons.IH [OF rest] lt
    by (simp add: d arrayGet_def isPointInObject_Some bindE_def)
qed

text \<open>Filtering by index against the projection of the list itself.\<close>

lemma filterE_projected:
  assumes "drop i pts = xs"
  shows "filterE (\<lambda>j. isPointInObject object (arrayGet (map project pts) j)) xs i
     = Inr (filter (\<lambda>p. shapeContains object (project p)) xs)"
  using assms
proof (induction xs arbitrary: i)
  case Nil
  then show ?case by simp
next
  case (Cons x xs)
  then have lt: "i < length pts"
    by (metis drop_all list.distinct(1) not_le)
  have x: "pts ! i = x" and rest: "drop (Suc i) pts = xs"
    using Cons.prems lt by (simp_all add: Cons_nth_drop_Suc [symmetric])
  show ?case
    using Cons.IH [OF rest] lt x
    by (simp add: arrayGet_def isPointInObject_Some bindE_def)
qed

lemma differenceOfArrays_filter:
  "differenceOfArrays pts (filter Q pts) = filter (\<lambda>p. \<not> Q p) pts"
  by (auto simp: differenceOfArrays_def isCoordinatesInArray_def list_ex_iff intro: filter_cong)

lemma queryPointFromPcd_cache:
  assumes "getCoords (buffer pointCloud) = Inr coords"
    and "length coords \<le> length (bufferNDC pointCloud)"
  shows "queryPointFromPcd object pointCloud
           = Inr (matchedCloudPoints object coords (bufferNDC pointCloud))"
  using assms filterE_cache [of 0 coords "bufferNDC pointCloud" object]
  by (simp add: queryPointFromPcd_def matchedCloudPoints_def bindE_def)

lemma queryPointFromSelection_projected:
  assumes "pointsNDC sel = Some (worldCoordsToNDC project (points sel))"
  shows "queryPointFromSelection object sel
           = Inr (filter (\<lambda>p. shapeContains object (project p)) (points sel))"
  using assms filterE_projected [of 0 "points sel" "points sel" object project]
  by (simp add: queryPointFromSelection_def worldCoordsToNDC_def)

text \<open>With one of the six coordinate formats \<open>getCoords\<close> does not throw.\<close>

lemma toThreeJSCoords_total:
  assumes "f \<in> set CoordinateFormat"
  shows "\<exists>w. toThreeJSCoords f v = Inr w"
  using assms
  by (auto simp: CoordinateFormat_def XYZ_def XZY_def YXZ_def YZX_def ZXY_def ZYX_def
      mkCoordinateFormatSpec_def toThreeJSCoords_def bindE_def getComponent_def)

lemma mapE_total:
  assumes "\<And>x. \<exists>y. g x = Inr y"
  shows "\<exists>ys. mapE g xs = Inr ys"
proof (induction xs)
  case Nil
  then show ?case by simp
next
  case (Cons x xs)
  from assms obtain y where "g x = Inr y" by blast
  moreover from Cons obtain ys where "mapE g xs = Inr ys" by blast
  ultimately show ?case by (simp add: bindE_def)
qed

lemma getCoords_total:
  assumes "format b \<in> set CoordinateFormat"
  shows "\<exists>coords. getCoords b = Inr coords"
  unfolding getCoords_def getPointCoords_def
  by (rule mapE_total) (rule toThreeJSCoords_total [OF assms])

lemma getCoords_exampleCloud:
  "getCoords (buffer exampleCloud)
     = Inr [Vector3 0 0 1, Vector3 2 2 1,
            Vector3 0 1 3]"
  by (simp add: exampleCloud_def newPointBuffer_def checkNumChannels_def getCoords_def
      range'_def getPointCoords_def getPoint_def checkPointIdx_def slice_def toIntegerJS_def
      destructure3_def toThreeJSCoords_def bindE_def getComponent_def XYZ_def
      mkCoordinateFormatSpec_def upt_conv_Cons double_eval)

text \<open>
  Claim C5. The claim holds for a cloud whose cache has an entry for each of its points, and
  not for every cloud (see the counterexample below). Let the cloud have a cache entry for
  each of its points (the coordinates are \<open>coords\<close>), and let the matched points be the
  cloud points whose cache entry lies in the drawn shape, in cloud order. If there is a matched point, \<open>createSelection\<close> stores
  and announces, in one \<open>selection-added\<close> event that also carries the matched points, a
  new label selection that consists of exactly the matched points, with the display size of
  the cloud and the given label class. If there is none, the editor is unchanged and no
  event is dispatched.
\<close>

theorem createSelection_matched:
  assumes "getCoords (buffer pointCloud) = Inr coords"
    and "length coords \<le> length (bufferNDC pointCloud)"
  shows "queryPointFromPcd object pointCloud
           = Inr (matchedCloudPoints object coords (bufferNDC pointCloud))
       \<and> (matchedCloudPoints object coords (bufferNDC pointCloud) \<noteq> [] \<longrightarrow>
            createSelection object lc pointCloud rnd this
              = Inr (this\<lparr>newLabelSelection := Some
                       \<lparr>id' = rnd * 100 + 5,
                        points = matchedCloudPoints object coords (bufferNDC pointCloud),
                        pointsNDC = None, pointSize' = pointSize pointCloud,
                        labelClass = Some lc\<rparr>\<rparr>,
                     [SelectionAdded
                       \<lparr>id' = rnd * 100 + 5,
                        points = matchedCloudPoints object coords (bufferNDC pointCloud),
                        pointsNDC = None, pointSize' = pointSize pointCloud,
                        labelClass = Some lc\<rparr>
                       (matchedCloudPoints object coords (bufferNDC pointCloud))]))
       \<and> (matchedCloudPoints object coords (bufferNDC pointCloud) = [] \<longrightarrow>
            createSelection object lc pointCloud rnd this = Inr (this, []))"
  using queryPointFromPcd_cache [OF assms, of object]
  by (simp add: createSelection_def bindE_def Let_def mkLabelSelection_def set_labelClass_def)

theorem createSelection_matched_witness:
  "getCoords (buffer exampleCloud)
     = Inr [Vector3 0 0 1, Vector3 2 2 1,
            Vector3 0 1 3]
   \<and> length [Vector3 0 0 1, Vector3 2 2 1,
            Vector3 0 1 (3::real)] \<le> length (bufferNDC exampleCloud)
   \<and> createSelection (Circle (Vector2 0 0) 2) (1::nat) exampleCloud 0.5 \<lparr>newLabelSelection = None\<rparr>
       = Inr (\<lparr>newLabelSelection = Some
                 \<lparr>id' = 55,
                  points = [Vector3 0 0 1, Vector3 0 1 3],
                  pointsNDC = None, pointSize' = 2, labelClass = Some 1\<rparr>\<rparr>,
              [SelectionAdded
                 \<lparr>id' = 55,
                  points = [Vector3 0 0 1, Vector3 0 1 3],
                  pointsNDC = None, pointSize' = 2, labelClass = Some 1\<rparr>
                 [Vector3 0 0 1, Vector3 0 1 3]])
   \<and> createSelection (Circle (Vector2 9 9) 1) (1::nat) exampleCloud 0.5 \<lparr>newLabelSelection = None\<rparr>
       = Inr (\<lparr>newLabelSelection = None\<rparr>, [])"
proof -
  let ?coords = "[Vector3 0 0 1, Vector3 2 2 1,
            Vector3 0 1 (3::real)]"
  have len: "length ?coords \<le> length (bufferNDC exampleCloud)"
    by (simp add: exampleCloud_def)
  have ndc: "bufferNDC exampleCloud = [Vector3 0 0 0, Vector3 2 2 0, Vector3 0 1 0]"
    and sz: "pointSize exampleCloud = 2"
    by (simp_all add: exampleCloud_def)
  have m1: "matchedCloudPoints (Circle (Vector2 0 0) 2) ?coords (bufferNDC exampleCloud)
      = [Vector3 0 0 1, Vector3 0 1 3]"
    by (simp add: ndc matchedCloudPoints_def shapeContains_def isPointInCircle_def
        double_eval)
  have m2: "matchedCloudPoints (Circle (Vector2 9 9) 1) ?coords (bufferNDC exampleCloud) = []"
    by (simp add: ndc matchedCloudPoints_def shapeContains_def isPointInCircle_def
        double_eval)
  show ?thesis
    using len
      createSelection_matched [OF getCoords_exampleCloud len,
        of "Circle (Vector2 0 0) 2" "1::nat" "0.5" "\<lparr>newLabelSelection = None\<rparr>"]
      createSelection_matched [OF getCoords_exampleCloud len,
        of "Circle (Vector2 9 9) 1" "1::nat" "0.5" "\<lparr>newLabelSelection = None\<rparr>"]
    by (simp add: getCoords_exampleCloud m1 m2 sz)
qed

text \<open>
  A cloud of three points whose cache has a single entry, which lies in the circle: the
  first cloud point is matched, the cache entry of the second is undefined, and
  \<open>createSelection\<close> fails with a \<open>TypeError\<close> instead of creating the selection of the
  matched point. A new point cloud starts with an empty cache.
\<close>

theorem createSelection_short_cache_counterexample:
  "getCoords (buffer shortCacheCloud) = Inr [Vector3 0 0 1, Vector3 2 2 1, Vector3 0 1 3]
   \<and> bufferNDC shortCacheCloud = [Vector3 0 0 0]
   \<and> matchedCloudPoints (Circle (Vector2 0 0) 2)
        [Vector3 0 0 1, Vector3 2 2 1, Vector3 0 1 3] (bufferNDC shortCacheCloud)
       = [Vector3 0 0 1]
   \<and> createSelection (Circle (Vector2 0 0) 2) (1::nat) shortCacheCloud (1 / 2)
        \<lparr>newLabelSelection = None\<rparr> = Inl TypeError"
proof -
  have b: "buffer shortCacheCloud = buffer exampleCloud"
    and ndc: "bufferNDC shortCacheCloud = [Vector3 0 0 0]"
    by (simp_all add: shortCacheCloud_def)
  have c: "getCoords (buffer shortCacheCloud)
      = Inr [Vector3 0 0 1, Vector3 2 2 1, Vector3 0 1 3]"
    by (simp only: b getCoords_exampleCloud)
  have m: "matchedCloudPoints (Circle (Vector2 0 0) 2)
        [Vector3 0 0 1, Vector3 2 2 1, Vector3 0 1 3] (bufferNDC shortCacheCloud)
      = [Vector3 0 0 1]"
    by (simp add: ndc matchedCloudPoints_def shapeContains_def isPointInCircle_def
        double_eval)
  have q: "queryPointFromPcd (Circle (Vector2 0 0) 2) shortCacheCloud = Inl TypeError"
    by (simp add: queryPointFromPcd_def c ndc bindE_def arrayGet_def isPointInObject_def
        isPointInCircle_def double_eval)
  have "createSelection (Circle (Vector2 0 0) 2) (1::nat) shortCacheCloud (1 / 2)
        \<lparr>newLabelSelection = None\<rparr> = Inl TypeError"
    by (simp add: createSelection_def q bindE_def)
  with c ndc m show ?thesis by simp
qed

text \<open>
  Claim C4. The claim holds for a selection whose cache is the projection of its current
  points, and not for every selection (see the counterexample below). Let the cache of the
  selection be the projection of its current points, as \<open>worldCoordsToNDC\<close> computes it. In
  erase mode the matched points are the points of the selection whose projection lies in
  the drawn shape; the cloud plays no part. The selection keeps the points that are not
  equal, coordinate by coordinate, to a matched point, the \<open>selection-changed\<close> event
  carries the updated selection and the matched points, and the number of points goes down
  by exactly the number of matched points.
\<close>

theorem modifySelection_erase:
  assumes "pointsNDC sel = Some (worldCoordsToNDC project (points sel))"
  shows "queryPointFromSelection object sel
           = Inr (filter (\<lambda>p. shapeContains object (project p)) (points sel))
       \<and> modifySelection object pointCloud sel ''erase''
           = Inr (sel\<lparr>points := differenceOfArrays (points sel)
                          (filter (\<lambda>p. shapeContains object (project p)) (points sel))\<rparr>,
                  [SelectionChanged
                     (sel\<lparr>points := differenceOfArrays (points sel)
                          (filter (\<lambda>p. shapeContains object (project p)) (points sel))\<rparr>)
                     (filter (\<lambda>p. shapeContains object (project p)) (points sel))])
       \<and> differenceOfArrays (points sel)
            (filter (\<lambda>p. shapeContains object (project p)) (points sel))
           = filter (\<lambda>p. p \<notin> set (filter (\<lambda>p. shapeContains object (project p)) (points sel)))
               (points sel)
       \<and> length (differenceOfArrays (points sel)
            (filter (\<lambda>p. shapeContains object (project p)) (points sel)))
           + length (filter (\<lambda>p. shapeContains object (project p)) (points sel))
           = length (points sel)
       \<and> modifySelection object otherCloud sel ''erase''
           = modifySelection object pointCloud sel ''erase''"
proof -
  let ?Q = "\<lambda>p. shapeContains object (project p)"
  have q: "queryPointFromSelection object sel = Inr (filter ?Q (points sel))"
    using assms by (rule queryPointFromSelection_projected)
  have m: "modifySelection object c sel ''erase''
      = Inr (sel\<lparr>points := differenceOfArrays (points sel) (filter ?Q (points sel))\<rparr>,
             [SelectionChanged
                (sel\<lparr>points := differenceOfArrays (points sel) (filter ?Q (points sel))\<rparr>)
                (filter ?Q (points sel))])" for c
    by (simp add: modifySelection_def q bindE_def Let_def updateSelectionPoints_def)
  have d: "differenceOfArrays (points sel) (filter ?Q (points sel))
      = filter (\<lambda>p. p \<notin> set (filter ?Q (points sel))) (points sel)"
    by (simp add: differenceOfArrays_def isCoordinatesInArray_def list_ex_iff)
  have n: "length (differenceOfArrays (points sel) (filter ?Q (points sel)))
      + length (filter ?Q (points sel)) = length (points sel)"
    using sum_length_filter_compl [of ?Q "points sel"]
    by (simp add: differenceOfArrays_filter)
  from q m [of pointCloud] m [of otherCloud] d n show ?thesis
    by simp
qed

theorem modifySelection_erase_witness:
  "pointsNDC exampleSelection = Some (worldCoordsToNDC exampleProject (points exampleSelection))
   \<and> modifySelection (Circle (Vector2 0 0) 1) exampleCloud exampleSelection ''erase''
       = Inr (exampleSelection\<lparr>points := [Vector3 2 2 1]\<rparr>,
              [SelectionChanged
                 (exampleSelection\<lparr>points := [Vector3 2 2 1]\<rparr>)
                 [Vector3 0 0 1, Vector3 0 0 1]])
   \<and> length (points exampleSelection) = 3"
proof -
  have pts: "points exampleSelection
      = [Vector3 0 0 1, Vector3 2 2 1,
         Vector3 0 0 1]"
    by (simp add: exampleSelection_def)
  have fresh: "pointsNDC exampleSelection
      = Some (worldCoordsToNDC exampleProject (points exampleSelection))"
    by (simp add: exampleSelection_def exampleProject_def worldCoordsToNDC_def)
  have f: "filter (\<lambda>p. shapeContains (Circle (Vector2 0 0) 1) (exampleProject p))
        (points exampleSelection)
      = [Vector3 0 0 1, Vector3 0 0 1]"
    by (simp add: pts exampleProject_def shapeContains_def isPointInCircle_def double_eval)
  have d: "differenceOfArrays (points exampleSelection)
        [Vector3 0 0 1, Vector3 0 0 1]
      = [Vector3 2 2 1]"
    by (simp add: pts differenceOfArrays_def isCoordinatesInArray_def)
  have m: "modifySelection (Circle (Vector2 0 0) 1) exampleCloud exampleSelection ''erase''
       = Inr (exampleSelection\<lparr>points := [Vector3 2 2 1]\<rparr>,
              [SelectionChanged
                 (exampleSelection\<lparr>points := [Vector3 2 2 1]\<rparr>)
                 [Vector3 0 0 1, Vector3 0 0 1]])"
    using modifySelection_erase [OF fresh, of "Circle (Vector2 0 0) 1" exampleCloud exampleCloud]
    unfolding f d by blast
  have len: "length (points exampleSelection) = 3"
    by (simp add: pts)
  from fresh m len show ?thesis by blast
qed

text \<open>
  A selection of two equal points whose cache is not the projection of its points: the first
  cache entry lies in the circle, the second does not. One point is matched, by its index;
  both points are removed, by their coordinates, so the number of points goes down by two.
\<close>

theorem modifySelection_erase_stale_cache_counterexample:
  "queryPointFromSelection (Circle (Vector2 0 0) 1) staleSelection = Inr [Vector3 0 0 1]
   \<and> modifySelection (Circle (Vector2 0 0) 1) exampleCloud staleSelection ''erase''
       = Inr (staleSelection\<lparr>points := []\<rparr>,
              [SelectionChanged (staleSelection\<lparr>points := []\<rparr>) [Vector3 0 0 1]])
   \<and> length (points staleSelection) = 2
   \<and> length (points (staleSelection\<lparr>points := []\<rparr>)) + length [Vector3 0 0 (1::real)]
       \<noteq> length (points staleSelection)"
proof -
  have pts: "points staleSelection = [Vector3 0 0 1, Vector3 0 0 1]"
    and ndc: "pointsNDC staleSelection = Some [Vector3 0 0 0, Vector3 5 5 0]"
    by (simp_all add: staleSelection_def)
  have q: "queryPointFromSelection (Circle (Vector2 0 0) 1) staleSelection
      = Inr [Vector3 0 0 1]"
    by (simp add: queryPointFromSelection_def pts ndc bindE_def arrayGet_def
        isPointInObject_def isPointInCircle_def double_eval)
  have d: "differenceOfArrays [Vector3 0 0 1, Vector3 0 0 1] [Vector3 0 0 (1::real)] = []"
    by (simp add: differenceOfArrays_def isCoordinatesInArray_def)
  have m: "modifySelection (Circle (Vector2 0 0) 1) exampleCloud staleSelection ''erase''
       = Inr (staleSelection\<lparr>points := []\<rparr>,
              [SelectionChanged (staleSelection\<lparr>points := []\<rparr>) [Vector3 0 0 1]])"
    by (simp add: modifySelection_def q pts d bindE_def updateSelectionPoints_def Let_def)
  from q m pts show ?thesis by simp
qed

text \<open>Without a cache the erase query throws as soon as the selection has a point.\<close>

lemma modifySelection_erase_no_cache:
  "modifySelection (Circle (Vector2 0 0) 1) pointCloud
     (mkLabelSelection 7 [Vector3 0 0 1] 2) ''erase'' = Inl TypeError"
  by (simp add: modifySelection_def queryPointFromSelection_def mkLabelSelection_def
      bindE_def)

end
